theory Spec2Isabelle
  imports Complex_Main "HOL-Library.Multiset" "HOL-Library.AList" "HOL-Library.List_Lexorder"
    "HOL-Library.Char_ord"
begin

section \<open>JavaScript values\<close>

text \<open>
  The question bank component keeps untyped JavaScript values in its state: the TypeScript
  annotations are erased at run time, and both the persisted snapshot and an imported file
  are whatever \<^verbatim>\<open>JSON.parse\<close> returned. The model therefore works on a datatype of
  JavaScript values.

  A finite number is embedded as the rational it denotes. Quotients and products are rounded
  to double precision as IEEE 754 prescribes (\<open>to_double\<close> below); sums are exact, which is
  what the program computes as long as a count stays below \<open>2^53\<close>; the sign of zero is
  not modelled. Strings are HOL strings. An object is
  the list of its own enumerable properties in enumeration order, with distinct keys.
  \<open>JFun\<close> stands for a built-in function value, which a property read can find on a
  prototype.
\<close>

datatype jsnum = Fin rat | PosInf | NegInf | NaN

datatype jsval =
    JUndefined
  | JNull
  | JBool bool
  | JNum jsnum
  | JStr string
  | JArr "jsval list"
  | JObj "(string \<times> jsval) list"
  | JFun string

datatype jstype = TUndefined | TObject | TBoolean | TNumber | TString | TFunction

datatype error = TypeError | SyntaxError

text \<open>
  What the program takes from its host: \<^verbatim>\<open>JSON.parse\<close> (\<open>None\<close> when it throws), the
  value a property read finds beyond the own properties modelled here, that is on the
  prototype chain or among the built-in properties of a function (\<open>JUndefined\<close> when
  there is none), the conversions \<^verbatim>\<open>ToString\<close> and \<^verbatim>\<open>ToNumber\<close> where the model
  does not compute them itself, and \<^verbatim>\<open>String.prototype.localeCompare\<close>.
\<close>

record host =
  json_parse :: "string \<Rightarrow> jsval option"
  inherited :: "jsval \<Rightarrow> string \<Rightarrow> jsval"
  to_string :: "jsval \<Rightarrow> string"
  to_number :: "jsval \<Rightarrow> jsnum"
  locale_compare :: "string \<Rightarrow> string \<Rightarrow> int"

fun typeof :: "jsval \<Rightarrow> jstype" where
  "typeof JUndefined = TUndefined"
| "typeof JNull = TObject"
| "typeof (JBool b) = TBoolean"
| "typeof (JNum n) = TNumber"
| "typeof (JStr s) = TString"
| "typeof (JArr xs) = TObject"
| "typeof (JObj kvs) = TObject"
| "typeof (JFun f) = TFunction"

fun truthy :: "jsval \<Rightarrow> bool" where
  "truthy JUndefined = False"
| "truthy JNull = False"
| "truthy (JBool b) = b"
| "truthy (JNum n) = (n \<noteq> NaN \<and> n \<noteq> Fin 0)"
| "truthy (JStr s) = (s \<noteq> [])"
| "truthy (JArr xs) = True"
| "truthy (JObj kvs) = True"
| "truthy (JFun f) = True"

fun nullish :: "jsval \<Rightarrow> bool" where
  "nullish JUndefined = True"
| "nullish JNull = True"
| "nullish v = False"

fun isArray :: "jsval \<Rightarrow> bool" where
  "isArray (JArr xs) = True"
| "isArray v = False"

fun elems :: "jsval \<Rightarrow> jsval list" where
  "elems (JArr xs) = xs"
| "elems v = []"

fun number_isFinite :: "jsval \<Rightarrow> bool" where
  "number_isFinite (JNum (Fin x)) = True"
| "number_isFinite v = False"

subsection \<open>Numbers\<close>

fun to_num :: "host \<Rightarrow> jsval \<Rightarrow> jsnum" where
  "to_num h (JNum n) = n"
| "to_num h JUndefined = NaN"
| "to_num h JNull = Fin 0"
| "to_num h (JBool b) = Fin (if b then 1 else 0)"
| "to_num h v = to_number h v"

fun num_lt :: "jsnum \<Rightarrow> jsnum \<Rightarrow> bool" where
  "num_lt NaN b = False"
| "num_lt a NaN = False"
| "num_lt (Fin a) (Fin b) = (a < b)"
| "num_lt (Fin a) PosInf = True"
| "num_lt NegInf (Fin b) = True"
| "num_lt NegInf PosInf = True"
| "num_lt a b = False"

fun num_ge :: "jsnum \<Rightarrow> jsnum \<Rightarrow> bool" where
  "num_ge NaN b = False"
| "num_ge a NaN = False"
| "num_ge a b = (\<not> num_lt a b)"


fun num_add :: "jsnum \<Rightarrow> jsnum \<Rightarrow> jsnum" where
  "num_add NaN b = NaN"
| "num_add a NaN = NaN"
| "num_add (Fin a) (Fin b) = Fin (a + b)"
| "num_add PosInf NegInf = NaN"
| "num_add NegInf PosInf = NaN"
| "num_add PosInf b = PosInf"
| "num_add NegInf b = NegInf"
| "num_add (Fin a) b = b"

fun num_neg :: "jsnum \<Rightarrow> jsnum" where
  "num_neg (Fin a) = Fin (- a)"
| "num_neg PosInf = NegInf"
| "num_neg NegInf = PosInf"
| "num_neg NaN = NaN"

text \<open>
  Rounding a rational to the nearest double, a tie to the even significand. \<open>binade a\<close>
  is the exponent \<open>e\<close> with \<open>2^e \<le> a < 2^(e+1)\<close>; the doubles of that binade are the
  multiples of \<open>2^(e-52)\<close>, those below \<open>2^-1022\<close> (the subnormal ones) the multiples of
  \<open>2^-1074\<close>; a result that reaches \<open>2^1024\<close> is an infinity.
\<close>

function binade_up :: "rat \<Rightarrow> nat" where
  "binade_up a = (if a < 2 then 0 else Suc (binade_up (a / 2)))"
  by pat_completeness auto
termination
proof (relation "measure (\<lambda>a. nat \<lfloor>a\<rfloor>)")
  show "wf (measure (\<lambda>a::rat. nat \<lfloor>a\<rfloor>))" by simp
next
  fix a :: rat
  assume "\<not> a < 2"
  then have "a / 2 \<le> a - 1" by simp
  then have "\<lfloor>a / 2\<rfloor> \<le> \<lfloor>a - 1\<rfloor>" by (rule floor_mono)
  moreover from \<open>\<not> a < 2\<close> have "2 \<le> \<lfloor>a\<rfloor>" by (simp add: le_floor_iff)
  ultimately show "(a / 2, a) \<in> measure (\<lambda>a. nat \<lfloor>a\<rfloor>)" by simp
qed

function binade_down :: "rat \<Rightarrow> nat" where
  "binade_down a = (if a \<le> 0 \<or> 1 \<le> a then 0 else Suc (binade_down (2 * a)))"
  by pat_completeness auto
termination
proof (relation "measure (\<lambda>a. nat \<lceil>1 / a\<rceil>)")
  show "wf (measure (\<lambda>a::rat. nat \<lceil>1 / a\<rceil>))" by simp
next
  fix a :: rat
  assume "\<not> (a \<le> 0 \<or> 1 \<le> a)"
  then have a: "0 < a" "a < 1" by simp_all
  then have y: "1 < 1 / a" by simp
  have "\<lceil>1 / (2 * a)\<rceil> < \<lceil>1 / a\<rceil>"
  proof (cases "1 / a \<le> 2")
    case True
    then have "1 / (2 * a) \<le> 1" using a by (simp add: field_simps)
    then have "\<lceil>1 / (2 * a)\<rceil> \<le> 1" by (simp add: ceiling_le_iff)
    moreover from y have "1 < \<lceil>1 / a\<rceil>" by (simp add: less_ceiling_iff)
    ultimately show ?thesis by linarith
  next
    case False
    then have "1 / (2 * a) \<le> 1 / a - 1" using a by (simp add: field_simps)
    then have "\<lceil>1 / (2 * a)\<rceil> \<le> \<lceil>1 / a - 1\<rceil>" by (rule ceiling_mono)
    then show ?thesis by simp
  qed
  moreover from y have "1 < \<lceil>1 / a\<rceil>" by (simp add: less_ceiling_iff)
  ultimately show "(2 * a, a) \<in> measure (\<lambda>a. nat \<lceil>1 / a\<rceil>)" using a by simp
qed

declare binade_up.simps [simp del] binade_down.simps [simp del]

definition binade :: "rat \<Rightarrow> int" where
  "binade a = (if 1 \<le> a then int (binade_up a) else - int (binade_down a))"

definition pow2 :: "int \<Rightarrow> rat" where
  "pow2 e = (if 0 \<le> e then 2 ^ nat e else 1 / 2 ^ nat (- e))"

definition round_half_even :: "rat \<Rightarrow> int" where
  "round_half_even m =
     (let f = \<lfloor>m\<rfloor>; d = m - of_int f
      in if d < 1 / 2 then f else if 1 / 2 < d then f + 1 else if even f then f else f + 1)"

definition to_double :: "rat \<Rightarrow> jsnum" where
  "to_double x =
     (if x = 0 then Fin 0
      else
        let a = \<bar>x\<bar>;
            p = max (binade a) (- 1022) - 52;
            y = of_int (round_half_even (a / pow2 p)) * pow2 p
        in if 1024 \<le> binade y then (if 0 < x then PosInf else NegInf)
           else Fin (if 0 < x then y else - y))"

fun num_mul :: "jsnum \<Rightarrow> jsnum \<Rightarrow> jsnum" where
  "num_mul NaN b = NaN"
| "num_mul a NaN = NaN"
| "num_mul (Fin a) (Fin b) = to_double (a * b)"
| "num_mul (Fin a) b = (if a = 0 then NaN else if 0 < a then b else num_neg b)"
| "num_mul a (Fin b) = (if b = 0 then NaN else if 0 < b then a else num_neg a)"
| "num_mul PosInf b = b"
| "num_mul NegInf b = num_neg b"

fun num_div :: "jsnum \<Rightarrow> jsnum \<Rightarrow> jsnum" where
  "num_div NaN b = NaN"
| "num_div a NaN = NaN"
| "num_div (Fin a) (Fin b) =
     (if b = 0 then (if a = 0 then NaN else if 0 < a then PosInf else NegInf)
      else to_double (a / b))"
| "num_div (Fin a) b = Fin 0"
| "num_div a (Fin b) = (if 0 \<le> b then a else num_neg a)"
| "num_div a b = NaN"

text \<open>
  \<^verbatim>\<open>Math.round\<close> rounds to the nearest integer, a tie towards plus infinity; the
  result is computed from the exact value of its argument.
\<close>

fun math_round :: "jsnum \<Rightarrow> jsnum" where
  "math_round (Fin x) = Fin (of_int \<lfloor>x + 1 / 2\<rfloor>)"
| "math_round n = n"

definition is_int :: "rat \<Rightarrow> bool" where
  "is_int x = (of_int \<lfloor>x\<rfloor> = x)"

subsection \<open>Property keys and property reads\<close>

fun show_nat :: "nat \<Rightarrow> string" where
  "show_nat n = (if n < 10 then [''0123456789'' ! n]
                 else show_nat (n div 10) @ [''0123456789'' ! (n mod 10)])"

declare show_nat.simps [simp del]

text \<open>
  The own enumerable properties of a value, as \<^verbatim>\<open>Object.entries\<close> and an object
  spread see them: the elements of an array and the characters of a string under their
  indices, nothing for the other primitives.
\<close>

fun own_entries :: "jsval \<Rightarrow> (string \<times> jsval) list" where
  "own_entries (JObj kvs) = kvs"
| "own_entries (JArr xs) = zip (map show_nat [0..<length xs]) xs"
| "own_entries (JStr s) = zip (map show_nat [0..<length s]) (map (\<lambda>c. JStr [c]) s)"
| "own_entries v = []"

fun js_length :: "jsval \<Rightarrow> nat option" where
  "js_length (JArr xs) = Some (length xs)"
| "js_length (JStr s) = Some (length s)"
| "js_length v = None"

text \<open>
  A property read \<^verbatim>\<open>v[k]\<close> on a receiver that is neither \<^verbatim>\<open>null\<close> nor
  \<^verbatim>\<open>undefined\<close>: the own property, else what the prototype chain has. On a nullish
  receiver JavaScript throws; every read of the program but one is guarded against that,
  and the unguarded one (in \<open>handleCheck\<close>) has its own error branch.
\<close>

definition get_prop :: "host \<Rightarrow> jsval \<Rightarrow> string \<Rightarrow> jsval" where
  "get_prop h v k =
     (if nullish v then JUndefined
      else if k = ''length'' \<and> js_length v \<noteq> None
        then JNum (Fin (of_nat (the (js_length v))))
      else case map_of (own_entries v) k of
             Some x \<Rightarrow> x
           | None \<Rightarrow> inherited h v k)"

text \<open>
  The key a value denotes in a computed property name or an index expression: a string
  itself, a non-negative integer below \<open>10^21\<close> its decimal digits, anything else what
  \<^verbatim>\<open>ToString\<close> gives.
\<close>

definition prop_key :: "host \<Rightarrow> jsval \<Rightarrow> string" where
  "prop_key h v =
     (case v of
        JStr s \<Rightarrow> s
      | JNum (Fin x) \<Rightarrow>
          if is_int x \<and> 0 \<le> x \<and> x < 10 ^ 21 then show_nat (nat \<lfloor>x\<rfloor>) else to_string h v
      | _ \<Rightarrow> to_string h v)"

text \<open>
  Writing a property of an object. An existing key keeps its place. A new key that is an
  array index (a canonical decimal numeral below \<open>2^32 - 1\<close>) is enumerated among the
  index keys in ascending order, before every other key; any other new key comes last.
\<close>

definition digits_val :: "string \<Rightarrow> nat" where
  "digits_val s = foldl (\<lambda>n c. 10 * n + (of_char c - 48)) 0 s"

definition is_index :: "string \<Rightarrow> bool" where
  "is_index k = (k \<noteq> [] \<and> list_all (\<lambda>c. c \<in> set ''0123456789'') k
                 \<and> (hd k \<noteq> CHR ''0'' \<or> k = ''0'') \<and> digits_val k < 2 ^ 32 - 1)"

fun insert_index :: "string \<Rightarrow> jsval \<Rightarrow> (string \<times> jsval) list \<Rightarrow> (string \<times> jsval) list" where
  "insert_index k v [] = [(k, v)]"
| "insert_index k v (p # ps) =
     (if is_index (fst p) \<and> digits_val (fst p) < digits_val k
      then p # insert_index k v ps
      else (k, v) # p # ps)"

definition obj_set :: "string \<Rightarrow> jsval \<Rightarrow> (string \<times> jsval) list \<Rightarrow> (string \<times> jsval) list" where
  "obj_set k v kvs =
     (if k \<in> fst ` set kvs \<or> \<not> is_index k then AList.update k v kvs
      else insert_index k v kvs)"

text \<open>
  The binary \<^verbatim>\<open>+\<close> with a number on the right: it concatenates when the left operand is
  a string or converts to one (arrays, objects, functions), and adds numbers otherwise.
\<close>

fun js_plus :: "host \<Rightarrow> jsval \<Rightarrow> jsnum \<Rightarrow> jsval" where
  "js_plus h (JStr s) n = JStr (s @ to_string h (JNum n))"
| "js_plus h (JArr xs) n = JStr (to_string h (JArr xs) @ to_string h (JNum n))"
| "js_plus h (JObj kvs) n = JStr (to_string h (JObj kvs) @ to_string h (JNum n))"
| "js_plus h (JFun f) n = JStr (to_string h (JFun f) @ to_string h (JNum n))"
| "js_plus h v n = JNum (num_add (to_num h v) n)"

section \<open>The validator\<close>

text \<open>
  \<^verbatim>\<open>isValidQuestion\<close>, conjunct by conjunct. The source returns the value of the
  \<^verbatim>\<open>&&\<close> chain and every caller uses its truthiness; the model returns that.
\<close>

definition isValidQuestion :: "host \<Rightarrow> jsval \<Rightarrow> bool" where
  "isValidQuestion h q =
     (truthy q \<and>
      (typeof (get_prop h q ''id'') = TNumber \<or> typeof (get_prop h q ''id'') = TString) \<and>
      typeof (get_prop h q ''topic'') = TString \<and>
      typeof (get_prop h q ''stem'') = TString \<and>
      isArray (get_prop h q ''choices'') \<and>
      list_all (\<lambda>c. typeof c = TString) (elems (get_prop h q ''choices'')) \<and>
      typeof (get_prop h q ''answer'') = TNumber \<and>
      number_isFinite (get_prop h q ''answer'') \<and>
      num_ge (to_num h (get_prop h q ''answer'')) (Fin 0) \<and>
      num_lt (to_num h (get_prop h q ''answer''))
             (to_num h (get_prop h (get_prop h q ''choices'') ''length'')) \<and>
      typeof (get_prop h q ''explanation'') = TString)"

section \<open>Shuffling\<close>

text \<open>
  \<^verbatim>\<open>shuffleArray\<close> copies its argument and runs the loop on the copy. \<open>rnd k\<close> is
  the value of the \<open>k\<close>-th call of \<^verbatim>\<open>Math.random()\<close>, a number in \<open>[0, 1)\<close>. The
  destructuring swap reads both cells, then writes cell \<open>i\<close>, then cell \<open>j\<close>.
\<close>

definition swap_cells :: "'a list \<Rightarrow> nat \<Rightarrow> nat \<Rightarrow> 'a list" where
  "swap_cells out i j = out[i := out ! j, j := out ! i]"

definition random_index :: "rat \<Rightarrow> nat \<Rightarrow> nat" where
  "random_index r i = nat \<lfloor>r * (of_nat i + 1)\<rfloor>"

fun shuffle_loop :: "(nat \<Rightarrow> rat) \<Rightarrow> nat \<Rightarrow> nat \<Rightarrow> 'a list \<Rightarrow> 'a list" where
  "shuffle_loop rnd k 0 out = out"
| "shuffle_loop rnd k (Suc i) out =
     shuffle_loop rnd (Suc k) i (swap_cells out (Suc i) (random_index (rnd k) (Suc i)))"

definition shuffleArray :: "(nat \<Rightarrow> rat) \<Rightarrow> 'a list \<Rightarrow> 'a list" where
  "shuffleArray rnd arr = shuffle_loop rnd 0 (length arr - 1) arr"

section \<open>Clamping an index\<close>

fun the_fin :: "jsval \<Rightarrow> rat" where
  "the_fin (JNum (Fin x)) = x"
| "the_fin v = 0"

definition clampIndex :: "jsval \<Rightarrow> nat \<Rightarrow> rat" where
  "clampIndex idx len =
     (if \<not> number_isFinite idx \<or> len \<le> 0 then 0
      else max 0 (min (the_fin idx) (of_nat len - 1)))"

section \<open>The component state\<close>

text \<open>
  The \<^verbatim>\<open>useState\<close> cells of \<^verbatim>\<open>QuestionBankApp\<close>. The bank is always an array and
  the index always a finite number (the handlers modelled here store \<open>0\<close> or a clamped
  value), so they are typed as such; the stats cell can hold any value a snapshot supplied.
  The selection is the position of a choice button.
\<close>

record state =
  questionBank :: "jsval list"
  index :: rat
  selected :: "nat option"
  showAnswer :: bool
  showExplanation :: bool
  stats :: jsval
  showAccuracy :: bool
  importError :: string

definition initialQuestions :: "jsval list" where
  "initialQuestions =
     [JObj [(''id'', JNum (Fin 1)),
            (''topic'', JStr ''Physiology''),
            (''stem'', JStr ''Left ventricular (LV) isovolumic contraction continues until what cardiac event occurs?''),
            (''choices'', JArr [JStr ''Mitral valve opens'', JStr ''Passive atrial filling'',
                               JStr ''Increased ventricular volume'', JStr ''Aortic valve opens'',
                               JStr ''Aortic pressure greater than left ventricular'']),
            (''answer'', JNum (Fin 3)),
            (''explanation'', JStr ''During isovolumic contraction, both valves are closed. Contraction continues until LV pressure exceeds aortic pressure, causing the aortic valve to open.'')],
      JObj [(''id'', JNum (Fin 2)),
            (''topic'', JStr ''Coronary Physiology''),
            (''stem'', JStr ''Which metabolic factor regulating coronary blood flow is derived from breakdown of high-energy phosphates?''),
            (''choices'', JArr [JStr ''Prostaglandin'', JStr ''Nitric oxide'', JStr ''Endothelin-1'',
                               JStr ''Adenosine'', JStr ''VEGF'']),
            (''answer'', JNum (Fin 3)),
            (''explanation'', JStr ''Adenosine is produced from ATP breakdown during low oxygen states and causes potent coronary vasodilation.'')]]"

definition initial_state :: "(nat \<Rightarrow> rat) \<Rightarrow> state" where
  "initial_state rnd =
     \<lparr>questionBank = shuffleArray rnd initialQuestions, index = 0, selected = None,
      showAnswer = False, showExplanation = False, stats = JObj [], showAccuracy = False,
      importError = []\<rparr>"

text \<open>
  Reading an array at a numeric index: the element when the index is an integer inside the
  array, \<^verbatim>\<open>undefined\<close> otherwise (no prototype defines a property named by a number).
\<close>

definition array_at :: "jsval list \<Rightarrow> rat \<Rightarrow> jsval" where
  "array_at xs c =
     (if is_int c \<and> 0 \<le> c \<and> c < of_nat (length xs) then xs ! nat \<lfloor>c\<rfloor> else JUndefined)"

definition totalQuestions :: "state \<Rightarrow> nat" where
  "totalQuestions s = length (questionBank s)"

definition current :: "state \<Rightarrow> jsval" where
  "current s = array_at (questionBank s) (clampIndex (JNum (Fin (index s))) (totalQuestions s))"

subsection \<open>Loading the persisted snapshot\<close>

definition safeParseJSON :: "host \<Rightarrow> string \<Rightarrow> jsval" where
  "safeParseJSON h str = (case json_parse h str of Some v \<Rightarrow> v | None \<Rightarrow> JNull)"

text \<open>
  The hydration effect. \<open>item\<close> is what \<^verbatim>\<open>localStorage.getItem\<close> returned, \<open>None\<close>
  for \<^verbatim>\<open>null\<close>.
\<close>

definition hydrate :: "host \<Rightarrow> string option \<Rightarrow> state \<Rightarrow> state" where
  "hydrate h item s =
     (case item of
        None \<Rightarrow> s
      | Some raw \<Rightarrow>
          if raw = [] then s
          else
            let saved = safeParseJSON h raw in
            if \<not> truthy saved \<or> typeof saved \<noteq> TObject then s
            else
              let bank = get_prop h saved ''questionBank'';
                  s1 = (if isArray bank \<and> list_all (isValidQuestion h) (elems bank)
                        then s\<lparr>questionBank := elems bank,
                               index := clampIndex (get_prop h saved ''index'') (length (elems bank))\<rparr>
                        else s);
                  acc = get_prop h saved ''showAccuracy'';
                  s2 = (if typeof acc = TBoolean then s1\<lparr>showAccuracy := truthy acc\<rparr> else s1);
                  st = get_prop h saved ''stats''
              in if truthy st \<and> typeof st = TObject then s2\<lparr>stats := st\<rparr> else s2)"

subsection \<open>The accuracy panel\<close>





text \<open>The percentage printed in a row of the panel.\<close>

definition accuracy_percent :: "host \<Rightarrow> jsval \<Rightarrow> jsnum" where
  "accuracy_percent h s =
     math_round
       (num_mul (num_div (to_num h (get_prop h s ''correct'')) (to_num h (get_prop h s ''total'')))
                (Fin 100))"



subsection \<open>The handlers\<close>

definition resetPerQuestionUI :: "state \<Rightarrow> state" where
  "resetPerQuestionUI s = s\<lparr>selected := None, showAnswer := False, showExplanation := False\<rparr>"

text \<open>
  \<^verbatim>\<open>handleCheck\<close>. The updater passed to \<^verbatim>\<open>setStats\<close> reads \<^verbatim>\<open>prev[q.topic]\<close>
  unguarded, which throws on a nullish \<open>prev\<close>.
\<close>

definition handleCheck :: "host \<Rightarrow> state \<Rightarrow> error + state" where
  "handleCheck h s =
     (let q = current s in
      if \<not> truthy q \<or> selected s = None then Inr s
      else if nullish (stats s) then Inl TypeError
      else
        let prev = stats s;
            topic = prop_key h (get_prop h q ''topic'');
            found = get_prop h prev topic;
            topicStats = (if truthy found then found
                          else JObj [(''correct'', JNum (Fin 0)), (''total'', JNum (Fin 0))]);
            isCorrect = (JNum (Fin (of_nat (the (selected s)))) = get_prop h q ''answer'');
            entry = JObj [(''total'', js_plus h (get_prop h topicStats ''total'') (Fin 1)),
                          (''correct'', js_plus h (get_prop h topicStats ''correct'')
                                          (Fin (if isCorrect then 1 else 0)))]
        in Inr (s\<lparr>showAnswer := True, showExplanation := False,
                  stats := JObj (obj_set topic entry (own_entries prev))\<rparr>))"

definition handleResetProgress :: "state \<Rightarrow> state" where
  "handleResetProgress s = (resetPerQuestionUI (s\<lparr>index := 0\<rparr>))\<lparr>stats := JObj []\<rparr>"

definition handleShuffle :: "(nat \<Rightarrow> rat) \<Rightarrow> state \<Rightarrow> state" where
  "handleShuffle rnd s =
     resetPerQuestionUI (s\<lparr>questionBank := shuffleArray rnd (questionBank s), index := 0\<rparr>)"

text \<open>
  The file handed to \<^verbatim>\<open>handleImportJSON\<close>: \<^verbatim>\<open>file.text()\<close> either resolves with the
  text or rejects.
\<close>

datatype import_file = Unreadable | Readable string

definition msg_structural :: string where
  "msg_structural = ''Import failed: JSON must be an array of questions (or { questions: [...] }).''"

definition msg_schema :: string where
  "msg_schema = ''Import failed: One or more questions are missing required fields (topic/stem/choices/answer/explanation).''"

definition msg_generic :: string where
  "msg_generic = ''Import failed: Could not read/parse the JSON file.''"

definition handleImportJSON :: "host \<Rightarrow> (nat \<Rightarrow> rat) \<Rightarrow> import_file option \<Rightarrow> state \<Rightarrow> state" where
  "handleImportJSON h rnd f s =
     (let s0 = s\<lparr>importError := []\<rparr> in
      case f of
        None \<Rightarrow> s0
      | Some Unreadable \<Rightarrow> s0\<lparr>importError := msg_generic\<rparr>
      | Some (Readable text) \<Rightarrow>
          let data = safeParseJSON h text;
              imported = (if isArray data then data
                          else if nullish data then JUndefined
                          else get_prop h data ''questions'')
          in if \<not> isArray imported \<or> length (elems imported) = 0
               then s0\<lparr>importError := msg_structural\<rparr>
             else if \<not> list_all (isValidQuestion h) (elems imported)
               then s0\<lparr>importError := msg_schema\<rparr>
             else (resetPerQuestionUI
                     (s0\<lparr>questionBank := shuffleArray rnd (elems imported), index := 0\<rparr>))
                  \<lparr>stats := JObj []\<rparr>)"

subsection \<open>What is rendered\<close>

datatype view = NoQuestionsLoaded | QuestionCard jsval

definition render :: "state \<Rightarrow> view" where
  "render s = (let q = current s in if \<not> truthy q then NoQuestionsLoaded else QuestionCard q)"

text \<open>
  The Check Answer button exists only on the question card and carries
  \<^verbatim>\<open>disabled={selected === null || showAnswer}\<close>; a disabled button does not call its
  \<^verbatim>\<open>onClick\<close>.
\<close>

definition check_disabled :: "state \<Rightarrow> bool" where
  "check_disabled s = (selected s = None \<or> showAnswer s)"

definition click_check :: "host \<Rightarrow> state \<Rightarrow> error + state" where
  "click_check h s =
     (case render s of
        NoQuestionsLoaded \<Rightarrow> Inr s
      | QuestionCard q \<Rightarrow> if check_disabled s then Inr s else handleCheck h s)"

section \<open>Arrays as references\<close>

text \<open>
  Whether \<^verbatim>\<open>shuffleArray\<close> returns a new array and leaves its argument alone is a
  question about references. Here the store is the list of all arrays allocated so far and
  a reference is a position in it; \<^verbatim>\<open>[...arr]\<close> allocates, and the swap writes into the
  store, one cell after the other.
\<close>

type_synonym 'a store = "'a list list"

definition spread_copy :: "nat \<Rightarrow> 'a store \<Rightarrow> nat \<times> 'a store" where
  "spread_copy a st = (length st, st @ [st ! a])"

definition store_swap :: "nat \<Rightarrow> nat \<Rightarrow> nat \<Rightarrow> 'a store \<Rightarrow> 'a store" where
  "store_swap b i j st =
     (let x = st ! b ! j; y = st ! b ! i;
          st1 = st[b := (st ! b)[i := x]]
      in st1[b := (st1 ! b)[j := y]])"

fun shuffle_loop_ref :: "(nat \<Rightarrow> rat) \<Rightarrow> nat \<Rightarrow> nat \<Rightarrow> nat \<Rightarrow> 'a store \<Rightarrow> 'a store" where
  "shuffle_loop_ref rnd k 0 b st = st"
| "shuffle_loop_ref rnd k (Suc i) b st =
     shuffle_loop_ref rnd (Suc k) i b (store_swap b (Suc i) (random_index (rnd k) (Suc i)) st)"

definition shuffleArray_ref :: "(nat \<Rightarrow> rat) \<Rightarrow> nat \<Rightarrow> 'a store \<Rightarrow> nat \<times> 'a store" where
  "shuffleArray_ref rnd a st =
     (let (out, st1) = spread_copy a st
      in (out, shuffle_loop_ref rnd 0 (length (st1 ! out) - 1) out st1))"

section \<open>The earlier component, \<^verbatim>\<open>src/QuestionBankApp.jsx\<close>\<close>

text \<open>
  The JavaScript file keeps a bank and an index only. Its hydration effect parses the stored
  item (or the text \<^verbatim>\<open>null\<close>) without a \<^verbatim>\<open>try\<close>, and adopts whatever truthy
  \<^verbatim>\<open>questionBank\<close> it finds, with \<^verbatim>\<open>saved.index || 0\<close> as the index. (The arrow
  in the explanation of its seed question is written \<^verbatim>\<open>->\<close> here.)
\<close>

record state_jsx =
  questionBank_jsx :: jsval
  index_jsx :: jsval

definition hydrate_jsx :: "host \<Rightarrow> string option \<Rightarrow> state_jsx \<Rightarrow> error + state_jsx" where
  "hydrate_jsx h item s =
     (let text = (case item of None \<Rightarrow> ''null'' | Some raw \<Rightarrow> if raw = [] then ''null'' else raw)
      in case json_parse h text of
           None \<Rightarrow> Inl SyntaxError
         | Some saved \<Rightarrow>
             if truthy (if nullish saved then JUndefined else get_prop h saved ''questionBank'')
             then Inr (s\<lparr>questionBank_jsx := get_prop h saved ''questionBank'',
                         index_jsx := (if truthy (get_prop h saved ''index'')
                                       then get_prop h saved ''index'' else JNum (Fin 0))\<rparr>)
             else Inr s)"

definition initialQuestions_jsx :: "jsval list" where
  "initialQuestions_jsx =
     [JObj [(''id'', JNum (Fin 1)),
            (''topic'', JStr ''Physiology''),
            (''stem'', JStr ''LV isovolumic contraction continues until what event occurs?''),
            (''choices'', JArr [JStr ''Mitral valve opens'', JStr ''Passive atrial filling'',
                               JStr ''Increased ventricular volume'', JStr ''Aortic valve opens'',
                               JStr ''Aortic pressure greater than LV'']),
            (''answer'', JNum (Fin 3)),
            (''explanation'', JStr ''LV pressure exceeds aortic pressure -> aortic valve opens.'')]]"

definition initial_state_jsx :: "(nat \<Rightarrow> rat) \<Rightarrow> state_jsx" where
  "initial_state_jsx rnd =
     \<lparr>questionBank_jsx = JArr (shuffleArray rnd initialQuestions_jsx), index_jsx = JNum (Fin 0)\<rparr>"

text \<open>\<^verbatim>\<open>const q = questionBank[index]\<close>; the bank is never nullish there.\<close>

definition current_jsx :: "host \<Rightarrow> state_jsx \<Rightarrow> jsval" where
  "current_jsx h s = get_prop h (questionBank_jsx s) (prop_key h (index_jsx s))"

section \<open>The invariant of the statistics\<close>

text \<open>
  A topic entry is well formed when it is an object whose \<^verbatim>\<open>correct\<close> and
  \<^verbatim>\<open>total\<close> are integers with \<open>0 \<le> correct \<le> total\<close>; the statistics are well
  formed when they are an object all of whose entries are.
\<close>

fun finite_field :: "(string \<times> jsval) list \<Rightarrow> string \<Rightarrow> rat option" where
  "finite_field e k = (case map_of e k of Some (JNum (Fin x)) \<Rightarrow> Some x | _ \<Rightarrow> None)"

fun topic_stat_ok :: "jsval \<Rightarrow> bool" where
  "topic_stat_ok (JObj e) =
     (case finite_field e ''correct'' of
        None \<Rightarrow> False
      | Some c \<Rightarrow>
          (case finite_field e ''total'' of
             None \<Rightarrow> False
           | Some t \<Rightarrow> is_int c \<and> is_int t \<and> 0 \<le> c \<and> c \<le> t))"
| "topic_stat_ok v = False"

definition stats_inv :: "jsval \<Rightarrow> bool" where
  "stats_inv st =
     (case st of
        JObj kvs \<Rightarrow> distinct (map fst kvs) \<and> list_all (\<lambda>(topic, v). topic_stat_ok v) kvs
      | _ \<Rightarrow> False)"

section \<open>A host for worked examples\<close>

text \<open>
  The examples below run the program on a host that parses the listed texts, finds the
  standard names of \<^verbatim>\<open>Object.prototype\<close> on every receiver, compares strings
  character by character, and has constant conversions.
\<close>

definition object_prototype_names :: "string list" where
  "object_prototype_names =
     [''constructor'', ''__defineGetter__'', ''__defineSetter__'', ''hasOwnProperty'',
      ''__lookupGetter__'', ''__lookupSetter__'', ''isPrototypeOf'', ''propertyIsEnumerable'',
      ''toString'', ''valueOf'', ''__proto__'', ''toLocaleString'']"

definition table_host :: "(string \<times> jsval) list \<Rightarrow> host" where
  "table_host tbl =
     \<lparr>json_parse = map_of tbl,
      inherited = (\<lambda>v k. if k \<in> set object_prototype_names then JFun k else JUndefined),
      to_string = (\<lambda>v. ''[object]''),
      to_number = (\<lambda>v. NaN),
      locale_compare = (\<lambda>a b. if a = b then 0 else if a < b then - 1 else 1)\<rparr>"

definition sample_question :: "rat \<Rightarrow> jsval" where
  "sample_question a =
     JObj [(''id'', JNum (Fin 1)), (''topic'', JStr ''T''), (''stem'', JStr ''S''),
           (''choices'', JArr [JStr ''A'', JStr ''B'']), (''answer'', JNum (Fin a)),
           (''explanation'', JStr ''E'')]"

text \<open>
  Stored snapshots and import files, each text next to the value it parses to, a source of
  random numbers that always returns the same number, and some states of the component.
\<close>

definition snapshot_empty_bank :: string where
  \<open>snapshot_empty_bank = ''{"questionBank":[],"index":3}''\<close>

definition snapshot_empty_bank_value :: jsval where
  "snapshot_empty_bank_value = JObj [(''questionBank'', JArr []), (''index'', JNum (Fin 3))]"

definition snapshot_index7 :: string where
  \<open>snapshot_index7 = ''{"questionBank":[{"id":1,"topic":"T","stem":"S","choices":["A","B"],"answer":0,"explanation":"E"}],"index":7}''\<close>

definition snapshot_index7_value :: jsval where
  "snapshot_index7_value = JObj [(''questionBank'', JArr [sample_question 0]), (''index'', JNum (Fin 7))]"

definition snapshot_array_stats :: string where
  \<open>snapshot_array_stats = ''{"stats":[]}''\<close>

definition snapshot_array_stats_value :: jsval where
  "snapshot_array_stats_value = JObj [(''stats'', JArr [])]"

definition snapshot_bad_stats :: string where
  \<open>snapshot_bad_stats = ''{"questionBank":[{"id":1,"topic":"T","stem":"S","choices":["A","B"],"answer":0,"explanation":"E"}],"stats":5}''\<close>

definition snapshot_bad_stats_value :: jsval where
  "snapshot_bad_stats_value = JObj [(''questionBank'', JArr [sample_question 0]), (''stats'', JNum (Fin 5))]"

definition snapshot_inflated_stats :: string where
  \<open>snapshot_inflated_stats = ''{"stats":{"T":{"correct":5,"total":2}}}''\<close>

definition snapshot_inflated_stats_value :: jsval where
  "snapshot_inflated_stats_value =
     JObj [(''stats'', JObj [(''T'', JObj [(''correct'', JNum (Fin 5)), (''total'', JNum (Fin 2))])])]"

definition fixed_random :: "rat \<Rightarrow> nat \<Rightarrow> rat" where
  "fixed_random r k = r"

definition idle_state :: state where
  "idle_state =
     \<lparr>questionBank = initialQuestions, index = 0, selected = None, showAnswer = False,
      showExplanation = False, stats = JObj [], showAccuracy = False, importError = []\<rparr>"

definition chosen_state :: state where
  "chosen_state = idle_state\<lparr>selected := Some 3\<rparr>"

definition answered_state :: state where
  "answered_state =
     \<lparr>questionBank = initialQuestions, index = 0, selected = Some 3, showAnswer = True,
      showExplanation = True,
      stats = JObj [(''Physiology'', JObj [(''total'', JNum (Fin 1)), (''correct'', JNum (Fin 1))])],
      showAccuracy = False, importError = []\<rparr>"

definition import_not_json :: string where
  "import_not_json = ''{not json''"

definition import_number :: string where
  "import_number = ''5''"

definition import_empty :: string where
  "import_empty = ''[]''"

definition import_bad_answer :: string where
  \<open>import_bad_answer = ''[{"id":1,"topic":"T","stem":"S","choices":["A","B"],"answer":99,"explanation":"E"}]''\<close>

definition import_good :: string where
  \<open>import_good = ''{"questions":[{"id":1,"topic":"T","stem":"S","choices":["A","B"],"answer":0,"explanation":"E"}]}''\<close>

definition import_host :: host where
  "import_host =
     table_host [(import_number, JNum (Fin 5)),
                 (import_empty, JArr []),
                 (import_bad_answer, JArr [sample_question 99]),
                 (import_good, JObj [(''questions'', JArr [sample_question 0])])]"


definition snapshot_good_stats :: string where
  \<open>snapshot_good_stats = ''{"stats":{"T":{"correct":1,"total":2}}}''\<close>

definition snapshot_good_stats_value :: jsval where
  "snapshot_good_stats_value =
     JObj [(''stats'', JObj [(''T'', JObj [(''correct'', JNum (Fin 1)), (''total'', JNum (Fin 2))])])]"

definition toString_state :: state where
  "toString_state =
     \<lparr>questionBank =
        [JObj [(''id'', JNum (Fin 1)), (''topic'', JStr ''toString''), (''stem'', JStr ''S''),
               (''choices'', JArr [JStr ''A'', JStr ''B'']), (''answer'', JNum (Fin 0)),
               (''explanation'', JStr ''E'')]],
      index = 0, selected = Some 0, showAnswer = False, showExplanation = False,
      stats = JObj [], showAccuracy = False, importError = []\<rparr>"

definition snapshot_half_index :: string where
  \<open>snapshot_half_index = ''{"questionBank":[{"id":1,"topic":"T","stem":"S","choices":["A","B"],"answer":0,"explanation":"E"},{"id":1,"topic":"T","stem":"S","choices":["A","B"],"answer":1,"explanation":"E"}],"index":0.5}''\<close>

definition snapshot_half_index_value :: jsval where
  "snapshot_half_index_value =
     JObj [(''questionBank'', JArr [sample_question 0, sample_question 1]), (''index'', JNum (Fin (1 / 2)))]"

section \<open>Basic facts\<close>

lemma is_int_iff: "is_int x \<longleftrightarrow> x \<in> \<int>"
  unfolding is_int_def by (metis Ints_of_int of_int_floor)

lemma get_prop_array_length: "get_prop h (JArr xs) ''length'' = JNum (Fin (of_nat (length xs)))"
  by (simp add: get_prop_def)

lemma current_empty: "questionBank s = [] \<Longrightarrow> current s = JUndefined"
  by (simp add: current_def totalQuestions_def array_at_def clampIndex_def)

section \<open>Rounding to double precision\<close>

text \<open>
  \<open>binade\<close> finds the power of two below its argument, and \<open>to_double\<close> returns a
  multiple of the spacing of that binade with a significand of at most 53 bits, at most half
  a spacing away from its argument.
\<close>

lemma pow2_pos: "0 < pow2 e"
  by (simp add: pow2_def)

lemma pow2_Suc: "pow2 (e + 1) = 2 * pow2 e"
proof (cases "0 \<le> e")
  case True
  then show ?thesis by (simp add: pow2_def nat_add_distrib)
next
  case False
  define n where "n = nat (- e - 1)"
  with False have e: "e = - int (Suc n)" by simp
  show ?thesis
  proof (cases n)
    case 0
    with e show ?thesis by (simp add: pow2_def)
  next
    case (Suc m)
    have "nat (int m + 1) = Suc m" "nat (int m + 2) = Suc (Suc m)" by simp_all
    with Suc e show ?thesis by (simp add: pow2_def)
  qed
qed

lemma round_half_even_near: "\<bar>of_int (round_half_even m) - m\<bar> \<le> 1 / 2"
proof -
  have "of_int \<lfloor>m\<rfloor> \<le> m" "m < of_int \<lfloor>m\<rfloor> + 1" by linarith+
  then show ?thesis by (auto simp: round_half_even_def Let_def abs_le_iff)
qed

lemma binade_up_bounds: "1 \<le> a \<Longrightarrow> 2 ^ binade_up a \<le> a \<and> a < 2 ^ Suc (binade_up a)"
proof (induction a rule: binade_up.induct)
  case (1 a)
  show ?case
  proof (cases "a < 2")
    case True
    with "1.prems" show ?thesis by (simp add: binade_up.simps[of a])
  next
    case False
    then have h: "1 \<le> a / 2" by simp
    from False have step: "binade_up a = Suc (binade_up (a / 2))"
      by (simp add: binade_up.simps[of a])
    from "1.IH"[OF False h] have "2 ^ binade_up (a / 2) \<le> a / 2" "a / 2 < 2 ^ Suc (binade_up (a / 2))"
      by simp_all
    then have "2 * 2 ^ binade_up (a / 2) \<le> a" "a < 2 * 2 ^ Suc (binade_up (a / 2))"
      by linarith+
    then show ?thesis by (simp add: step)
  qed
qed

lemma binade_down_bounds:
  "0 < a \<Longrightarrow> a < 1 \<Longrightarrow> 1 \<le> a * 2 ^ binade_down a \<and> a * 2 ^ binade_down a < 2"
proof (induction a rule: binade_down.induct)
  case (1 a)
  from "1.prems" have n: "\<not> (a \<le> 0 \<or> 1 \<le> a)" by simp
  then have step: "binade_down a = Suc (binade_down (2 * a))"
    by (simp add: binade_down.simps[of a])
  show ?case
  proof (cases "2 * a < 1")
    case True
    from "1.prems" have "0 < 2 * a" by simp
    from "1.IH"[OF n this True]
    have "1 \<le> 2 * a * 2 ^ binade_down (2 * a)" "2 * a * 2 ^ binade_down (2 * a) < 2" by simp_all
    then have "1 \<le> a * (2 * 2 ^ binade_down (2 * a))" "a * (2 * 2 ^ binade_down (2 * a)) < 2"
      by (simp_all add: mult.assoc mult.left_commute)
    then show ?thesis by (simp add: step)
  next
    case False
    then have z: "binade_down (2 * a) = 0" by (simp add: binade_down.simps[of "2 * a"])
    from False "1.prems" have "1 \<le> a * 2" "a * 2 < 2" by simp_all
    then show ?thesis by (simp add: step z)
  qed
qed

lemma pow2_nat: "pow2 (int n) = 2 ^ n"
  by (simp add: pow2_def)

lemma pow2_neg: "pow2 (- int n) = 1 / 2 ^ n"
proof (cases n)
  case 0
  then show ?thesis by (simp add: pow2_def)
next
  case (Suc m)
  have "nat (int m + 1) = Suc m" by simp
  with Suc show ?thesis by (simp add: pow2_def)
qed

lemma binade_bounds:
  assumes "0 < a"
  shows "pow2 (binade a) \<le> a \<and> a < pow2 (binade a + 1)"
proof (cases "1 \<le> a")
  case True
  then have b: "binade a = int (binade_up a)" by (simp add: binade_def)
  have p: "pow2 (int (binade_up a)) = 2 ^ binade_up a" by (rule pow2_nat)
  from binade_up_bounds[OF True] show ?thesis
    unfolding pow2_Suc b p by simp
next
  case False
  then have lt: "a < 1" by simp
  from False have b: "binade a = - int (binade_down a)" by (simp add: binade_def)
  have p: "pow2 (- int (binade_down a)) = 1 / 2 ^ binade_down a"
    by (rule pow2_neg)
  from binade_down_bounds[OF assms lt]
  have "1 / 2 ^ binade_down a \<le> a" "a < 2 * (1 / 2 ^ binade_down a)"
    by (simp_all add: field_simps)
  then show ?thesis
    unfolding pow2_Suc b p by simp
qed

lemma pow2_add_nat: "pow2 (e + int k) = 2 ^ k * pow2 e"
proof (induction k)
  case 0
  then show ?case by simp
next
  case (Suc k)
  have "e + int (Suc k) = (e + int k) + 1" by simp
  then have "pow2 (e + int (Suc k)) = 2 * pow2 (e + int k)" by (simp only: pow2_Suc)
  with Suc show ?case by simp
qed

lemma pow2_mono:
  assumes "e \<le> e'"
  shows "pow2 e \<le> pow2 e'"
proof -
  from assms obtain k where k: "e' = e + int k" by (auto simp: zle_iff_zadd)
  have "1 * pow2 e \<le> 2 ^ k * pow2 e"
    using pow2_pos[of e] by (intro mult_right_mono) simp_all
  then show ?thesis by (simp add: k pow2_add_nat)
qed


lemma scaled_near:
  fixes P a :: rat
  assumes "0 < P" "\<bar>of_int n - a / P\<bar> \<le> 1 / 2"
  shows "\<bar>of_int n * P - a\<bar> \<le> P / 2"
proof -
  have "of_int n * P - a = (of_int n - a / P) * P"
    using assms(1) by (simp add: left_diff_distrib)
  then have "\<bar>of_int n * P - a\<bar> = \<bar>of_int n - a / P\<bar> * P"
    using assms(1) by (simp add: abs_mult)
  also have "\<dots> \<le> 1 / 2 * P"
    using assms by (intro mult_right_mono) simp_all
  finally show ?thesis by simp
qed

lemma to_double_zero: "to_double 0 = Fin 0"
  by (simp add: to_double_def)

lemma to_double_nonzero:
  assumes "x \<noteq> 0"
  shows "to_double x =
           (if 1024 \<le> binade (of_int (round_half_even (\<bar>x\<bar> / pow2 (max (binade \<bar>x\<bar>) (- 1022) - 52)))
                                * pow2 (max (binade \<bar>x\<bar>) (- 1022) - 52))
            then (if 0 < x then PosInf else NegInf)
            else Fin (if 0 < x
                      then of_int (round_half_even (\<bar>x\<bar> / pow2 (max (binade \<bar>x\<bar>) (- 1022) - 52)))
                             * pow2 (max (binade \<bar>x\<bar>) (- 1022) - 52)
                      else - (of_int (round_half_even (\<bar>x\<bar> / pow2 (max (binade \<bar>x\<bar>) (- 1022) - 52)))
                             * pow2 (max (binade \<bar>x\<bar>) (- 1022) - 52))))"
  using assms by (simp only: to_double_def Let_def if_False)

lemma to_double_half_ulp:
  assumes "to_double x = Fin y"
  shows "\<bar>y - x\<bar> \<le> pow2 (max (binade \<bar>x\<bar>) (- 1022) - 52) / 2"
proof (cases "x = 0")
  case True
  from assms have "y = 0" unfolding True to_double_zero by simp
  moreover have "0 < pow2 (max (binade \<bar>x\<bar>) (- 1022) - 52)" by (rule pow2_pos)
  ultimately show ?thesis unfolding True by simp
next
  case False
  define P where "P = pow2 (max (binade \<bar>x\<bar>) (- 1022) - 52)"
  define N where "N = round_half_even (\<bar>x\<bar> / P)"
  have pp: "0 < P" unfolding P_def by (rule pow2_pos)
  have "\<bar>of_int N - \<bar>x\<bar> / P\<bar> \<le> 1 / 2" unfolding N_def by (rule round_half_even_near)
  with pp have near: "\<bar>of_int N * P - \<bar>x\<bar>\<bar> \<le> P / 2" by (rule scaled_near)
  have td: "to_double x =
              (if 1024 \<le> binade (of_int N * P) then (if 0 < x then PosInf else NegInf)
               else Fin (if 0 < x then of_int N * P else - (of_int N * P)))"
    unfolding N_def P_def by (rule to_double_nonzero[OF False])
  have small: "\<not> 1024 \<le> binade (of_int N * P)"
  proof
    assume "1024 \<le> binade (of_int N * P)"
    with td have "to_double x = (if 0 < x then PosInf else NegInf)" by (simp only: if_True)
    with assms show False by (cases "0 < x") simp_all
  qed
  with td have "to_double x = Fin (if 0 < x then of_int N * P else - (of_int N * P))"
    by (simp only: if_False)
  with assms have y: "y = (if 0 < x then of_int N * P else - (of_int N * P))" by simp
  have "\<bar>y - x\<bar> = \<bar>of_int N * P - \<bar>x\<bar>\<bar>"
  proof (cases "0 < x")
    case True
    then show ?thesis by (simp add: y)
  next
    case neg: False
    then have "y - x = - (of_int N * P - \<bar>x\<bar>)" by (simp add: y)
    then show ?thesis by (simp only: abs_minus)
  qed
  with near show ?thesis unfolding P_def by simp
qed

lemma round_half_even_range: "\<lfloor>m\<rfloor> \<le> round_half_even m \<and> round_half_even m \<le> \<lfloor>m\<rfloor> + 1"
  by (simp add: round_half_even_def Let_def)

lemma to_double_grid:
  assumes "to_double x = Fin y"
  shows "\<exists>k. \<bar>y\<bar> = of_int k * pow2 (max (binade \<bar>x\<bar>) (- 1022) - 52) \<and> 0 \<le> k \<and> k \<le> 2 ^ 53"
proof (cases "x = 0")
  case True
  from assms have "y = 0" unfolding True to_double_zero by simp
  then have "\<bar>y\<bar> = of_int 0 * pow2 (max (binade \<bar>x\<bar>) (- 1022) - 52) \<and> (0::int) \<le> 0 \<and> (0::int) \<le> 2 ^ 53"
    by simp
  then show ?thesis by (rule exI)
next
  case False
  define p where "p = max (binade \<bar>x\<bar>) (- 1022) - 52"
  define P where "P = pow2 p"
  define N where "N = round_half_even (\<bar>x\<bar> / P)"
  have pp: "0 < P" unfolding P_def by (rule pow2_pos)
  from False have ax: "0 < \<bar>x\<bar>" by simp
  have td: "to_double x =
              (if 1024 \<le> binade (of_int N * P) then (if 0 < x then PosInf else NegInf)
               else Fin (if 0 < x then of_int N * P else - (of_int N * P)))"
    unfolding N_def P_def p_def by (rule to_double_nonzero[OF False])
  have small: "\<not> 1024 \<le> binade (of_int N * P)"
  proof
    assume "1024 \<le> binade (of_int N * P)"
    with td have "to_double x = (if 0 < x then PosInf else NegInf)" by (simp only: if_True)
    with assms show False by (cases "0 < x") simp_all
  qed
  with td have "to_double x = Fin (if 0 < x then of_int N * P else - (of_int N * P))"
    by (simp only: if_False)
  with assms have y: "y = (if 0 < x then of_int N * P else - (of_int N * P))" by simp
  from ax pp have q0: "0 \<le> \<bar>x\<bar> / P" by simp
  then have "0 \<le> \<lfloor>\<bar>x\<bar> / P\<rfloor>" by simp
  with round_half_even_range[of "\<bar>x\<bar> / P"] have N0: "0 \<le> N" unfolding N_def by linarith
  have "binade \<bar>x\<bar> + 1 \<le> p + 53" unfolding p_def by simp
  then have "pow2 (binade \<bar>x\<bar> + 1) \<le> pow2 (p + int 53)" using pow2_mono by simp
  also have "\<dots> = 2 ^ 53 * P" unfolding P_def by (rule pow2_add_nat)
  finally have "\<bar>x\<bar> < 2 ^ 53 * P" using binade_bounds[OF ax] by simp
  with pp have "\<bar>x\<bar> / P < 2 ^ 53" by (simp add: pos_divide_less_eq)
  then have "\<bar>x\<bar> / P < of_int (2 ^ 53)" by simp
  then have "\<lfloor>\<bar>x\<bar> / P\<rfloor> < 2 ^ 53" by (simp only: floor_less_iff)
  with round_half_even_range[of "\<bar>x\<bar> / P"] have N53: "N \<le> 2 ^ 53" unfolding N_def by linarith
  from N0 pp have "0 \<le> of_int N * P" by simp
  with y have "\<bar>y\<bar> = of_int N * P" by (cases "0 < x") simp_all
  with N0 N53 have "\<bar>y\<bar> = of_int N * pow2 (max (binade \<bar>x\<bar>) (- 1022) - 52) \<and> 0 \<le> N \<and> N \<le> 2 ^ 53"
    unfolding P_def p_def by simp
  then show ?thesis by (rule exI)
qed




section \<open>Properties of the shuffle\<close>

lemma random_index_le:
  assumes "0 \<le> r" "r < 1"
  shows "random_index r i \<le> i"
proof -
  have "r * (of_nat i + 1) < 1 * (of_nat i + 1)"
    using assms by (intro mult_strict_right_mono) simp_all
  then have "r * (of_nat i + 1) < of_int (int i + 1)"
    by simp
  then have "\<lfloor>r * (of_nat i + 1)\<rfloor> < int i + 1"
    by (simp only: floor_less_iff)
  then show ?thesis
    by (simp add: random_index_def)
qed

lemma mset_swap_cells:
  "i < length out \<Longrightarrow> j < length out \<Longrightarrow> mset (swap_cells out i j) = mset out"
  by (simp add: swap_cells_def mset_swap)

lemma length_swap_cells: "length (swap_cells out i j) = length out"
  by (simp add: swap_cells_def)

lemma shuffle_loop_perm:
  assumes "\<forall>k. 0 \<le> rnd k \<and> rnd k < 1"
  shows "i < length out \<Longrightarrow>
         mset (shuffle_loop rnd k i out) = mset out \<and> length (shuffle_loop rnd k i out) = length out"
proof (induction i arbitrary: k out)
  case 0
  then show ?case by simp
next
  case (Suc i)
  let ?j = "random_index (rnd k) (Suc i)"
  have j: "?j < length out"
    using random_index_le[of "rnd k" "Suc i"] assms Suc.prems by (meson le_less_trans)
  have "i < length (swap_cells out (Suc i) ?j)"
    using Suc.prems by (simp add: length_swap_cells)
  from Suc.IH[OF this, of "Suc k"] show ?case
    using Suc.prems j by (simp add: mset_swap_cells length_swap_cells)
qed

lemma shuffleArray_perm:
  assumes "\<forall>k. 0 \<le> rnd k \<and> rnd k < 1"
  shows "mset (shuffleArray rnd arr) = mset arr \<and> length (shuffleArray rnd arr) = length arr"
proof (cases arr)
  case Nil
  then show ?thesis by (simp add: shuffleArray_def)
next
  case (Cons x xs)
  then have "length arr - 1 < length arr" by simp
  from shuffle_loop_perm[OF assms this] show ?thesis
    by (simp add: shuffleArray_def)
qed

text \<open>The loop on the store writes only the array it was given, and computes \<open>shuffle_loop\<close> there.\<close>

lemma store_swap_cells:
  "b < length st \<Longrightarrow> store_swap b i j st = st[b := swap_cells (st ! b) i j]"
  by (simp add: store_swap_def swap_cells_def Let_def)

lemma shuffle_loop_ref_eq:
  "b < length st \<Longrightarrow>
   shuffle_loop_ref rnd k i b st = st[b := shuffle_loop rnd k i (st ! b)]"
proof (induction i arbitrary: k st)
  case 0
  then show ?case by simp
next
  case (Suc i)
  then show ?case by (simp add: store_swap_cells)
qed

lemma shuffleArray_ref_eq:
  "shuffleArray_ref rnd a st = (length st, st @ [shuffleArray rnd (st ! a)])"
  by (simp add: shuffleArray_ref_def spread_copy_def shuffle_loop_ref_eq shuffleArray_def)

text \<open>
  C7. For every array \<open>a\<close> of the store, \<^verbatim>\<open>shuffleArray\<close> returns a reference \<open>out\<close>
  different from \<open>a\<close>, to an array with the same length and the same multiset of elements
  as \<open>a\<close>; \<open>a\<close> and every other array that existed before the call are unmodified. The
  values of \<^verbatim>\<open>Math.random()\<close> lie in \<open>[0, 1)\<close>.
\<close>

theorem shuffleArray_new_array_same_elements:
  assumes rnd: "\<forall>k. 0 \<le> rnd k \<and> rnd k < 1"
    and a: "a < length st"
    and res: "shuffleArray_ref rnd a st = (out, st')"
  shows "out \<noteq> a \<and> out < length st'
         \<and> length (st' ! out) = length (st ! a)
         \<and> mset (st' ! out) = mset (st ! a)
         \<and> (\<forall>r < length st. st' ! r = st ! r)"
proof -
  from res have out: "out = length st" and st': "st' = st @ [shuffleArray rnd (st ! a)]"
    by (simp_all add: shuffleArray_ref_eq)
  from shuffleArray_perm[OF rnd, of "st ! a"] show ?thesis
    using a by (simp add: out st' nth_append)
qed

theorem shuffleArray_new_array_same_elements_witness:
  "(\<forall>k. 0 \<le> fixed_random (1 / 2) k \<and> fixed_random (1 / 2) k < 1)
   \<and> (0::nat) < length [[1, 2, 3 :: nat]]
   \<and> shuffleArray_ref (fixed_random (1 / 2)) 0 [[1, 2, 3 :: nat]] = (1, [[1, 2, 3], [1, 3, 2]])
   \<and> (1::nat) \<noteq> 0
   \<and> mset ([[1, 2, 3], [1, 3, 2 :: nat]] ! 1) = mset ([[1, 2, 3 :: nat]] ! 0)
   \<and> [[1, 2, 3], [1, 3, 2 :: nat]] ! 0 = [[1, 2, 3 :: nat]] ! 0"
proof -
  have h1: "\<forall>k. 0 \<le> fixed_random (1 / 2) k \<and> fixed_random (1 / 2) k < 1"
    by (simp add: fixed_random_def)
  have h2: "(0::nat) < length [[1, 2, 3 :: nat]]" by simp
  have h3: "shuffleArray_ref (fixed_random (1 / 2)) 0 [[1, 2, 3 :: nat]] = (1, [[1, 2, 3], [1, 3, 2]])"
    by code_simp
  from shuffleArray_new_array_same_elements[OF h1 h2 h3] h1 h3 show ?thesis by simp
qed

section \<open>Shuffle and reset\<close>

text \<open>
  C8. The Shuffle handler replaces the bank with \<open>shuffleArray\<close> of the bank, sets the
  index to 0, clears the selection, the reveal flag and the explanation flag, and leaves the
  stats as they were. The Reset Progress handler sets the index to 0, clears the same three
  cells and empties the stats, and leaves the bank, order included, as it was.
\<close>

theorem shuffle_keeps_stats_reset_keeps_bank:
  "questionBank (handleShuffle rnd s) = shuffleArray rnd (questionBank s)
   \<and> index (handleShuffle rnd s) = 0
   \<and> selected (handleShuffle rnd s) = None
   \<and> showAnswer (handleShuffle rnd s) = False
   \<and> showExplanation (handleShuffle rnd s) = False
   \<and> stats (handleShuffle rnd s) = stats s
   \<and> index (handleResetProgress s) = 0
   \<and> selected (handleResetProgress s) = None
   \<and> showAnswer (handleResetProgress s) = False
   \<and> showExplanation (handleResetProgress s) = False
   \<and> stats (handleResetProgress s) = JObj []
   \<and> questionBank (handleResetProgress s) = questionBank s"
  by (simp add: handleShuffle_def handleResetProgress_def resetPerQuestionUI_def)

section \<open>What the validator guarantees about the answer\<close>

lemma isValidQuestion_answer_bounds:
  assumes "isValidQuestion h q"
  shows "\<exists>x xs. get_prop h q ''answer'' = JNum (Fin x) \<and> get_prop h q ''choices'' = JArr xs
               \<and> 0 \<le> x \<and> x < of_nat (length xs)"
proof -
  from assms obtain xs where xs: "get_prop h q ''choices'' = JArr xs"
    by (cases "get_prop h q ''choices''") (simp_all add: isValidQuestion_def)
  from assms obtain x where x: "get_prop h q ''answer'' = JNum (Fin x)"
    unfolding isValidQuestion_def
    by (cases "get_prop h q ''answer''" rule: number_isFinite.cases) simp_all
  from assms have "0 \<le> x \<and> x < of_nat (length xs)"
    by (simp add: isValidQuestion_def xs x get_prop_array_length)
  with x xs show ?thesis by blast
qed

text \<open>
  C3. The claim is that every accepted question has an \<^verbatim>\<open>answer\<close> that is a valid index
  into \<^verbatim>\<open>choices\<close>, an integer in particular. The validator checks that the answer is a
  finite number in \<open>[0, choices.length)\<close> and nothing more: the question with choices A, B
  and answer 0.5 is accepted, 0.5 is not an integer, and reading the choices at 0.5 gives
  \<^verbatim>\<open>undefined\<close>.
\<close>

theorem isValidQuestion_accepts_fractional_answer:
  "isValidQuestion (table_host []) (sample_question (1 / 2))
   \<and> get_prop (table_host []) (sample_question (1 / 2)) ''answer'' = JNum (Fin (1 / 2))
   \<and> get_prop (table_host []) (sample_question (1 / 2)) ''choices'' = JArr [JStr ''A'', JStr ''B'']
   \<and> \<not> is_int (1 / 2)
   \<and> array_at [JStr ''A'', JStr ''B''] (1 / 2) = JUndefined"
  by code_simp

section \<open>The stored index\<close>

lemma clampIndex_in_range:
  "0 < len \<Longrightarrow> 0 \<le> clampIndex idx len \<and> clampIndex idx len \<le> of_nat len - 1"
  by (simp add: clampIndex_def)

lemma hydrate_index_in_range:
  assumes "raw \<noteq> []" "json_parse h raw = Some saved" "truthy saved" "typeof saved = TObject"
    and "get_prop h saved ''questionBank'' = JArr qs" "list_all (isValidQuestion h) qs" "qs \<noteq> []"
  shows "questionBank (hydrate h (Some raw) s) = qs
         \<and> index (hydrate h (Some raw) s) = clampIndex (get_prop h saved ''index'') (length qs)
         \<and> 0 \<le> index (hydrate h (Some raw) s)
         \<and> index (hydrate h (Some raw) s) \<le> of_nat (length qs) - 1"
proof -
  have "questionBank (hydrate h (Some raw) s) = qs"
    and i: "index (hydrate h (Some raw) s) = clampIndex (get_prop h saved ''index'') (length qs)"
    using assms by (simp_all add: hydrate_def safeParseJSON_def Let_def)
  moreover from assms(7) have "0 < length qs" by simp
  from clampIndex_in_range[OF this, of "get_prop h saved ''index''"] i
  have "0 \<le> index (hydrate h (Some raw) s) \<and> index (hydrate h (Some raw) s) \<le> of_nat (length qs) - 1"
    by simp
  ultimately show ?thesis by simp
qed

text \<open>
  The clamp keeps a fractional index: a stored index 0.5 over two questions is adopted as
  0.5, no element is read at it, and the component renders "No questions loaded" over a
  bank of two valid questions.
\<close>

lemma hydrate_fractional_index:
  "index (hydrate (table_host [(snapshot_half_index, snapshot_half_index_value)])
            (Some snapshot_half_index) (initial_state (fixed_random 0))) = 1 / 2
   \<and> questionBank (hydrate (table_host [(snapshot_half_index, snapshot_half_index_value)])
            (Some snapshot_half_index) (initial_state (fixed_random 0)))
       = [sample_question 0, sample_question 1]
   \<and> render (hydrate (table_host [(snapshot_half_index, snapshot_half_index_value)])
            (Some snapshot_half_index) (initial_state (fixed_random 0))) = NoQuestionsLoaded"
  by code_simp

text \<open>
  C5. The claim is that every stored index goes through the clamp before it is used. The
  TypeScript component does clamp; the hydration effect of \<^verbatim>\<open>src/QuestionBankApp.jsx\<close>
  does not. On a snapshot with one question and index 7 it adopts index 7, and the current
  question \<^verbatim>\<open>questionBank[7]\<close> is \<^verbatim>\<open>undefined\<close>; the TypeScript component adopts the same
  bank with index 0.
\<close>

theorem hydrate_jsx_index_not_clamped:
  "hydrate_jsx (table_host [(snapshot_index7, snapshot_index7_value)]) (Some snapshot_index7)
       (initial_state_jsx (fixed_random 0))
     = Inr \<lparr>questionBank_jsx = JArr [sample_question 0], index_jsx = JNum (Fin 7)\<rparr>
   \<and> current_jsx (table_host [(snapshot_index7, snapshot_index7_value)])
        \<lparr>questionBank_jsx = JArr [sample_question 0], index_jsx = JNum (Fin 7)\<rparr> = JUndefined
   \<and> index (hydrate (table_host [(snapshot_index7, snapshot_index7_value)]) (Some snapshot_index7)
        (initial_state (fixed_random 0))) = 0
   \<and> questionBank (hydrate (table_host [(snapshot_index7, snapshot_index7_value)]) (Some snapshot_index7)
        (initial_state (fixed_random 0))) = [sample_question 0]"
  by code_simp

theorem hydrate_jsx_index_not_clamped_witness:
  "hydrate_jsx (table_host [(snapshot_index7, snapshot_index7_value)]) (Some snapshot_index7)
       (initial_state_jsx (fixed_random 0))
     \<noteq> Inr \<lparr>questionBank_jsx = JArr [sample_question 0],
              index_jsx = JNum (Fin (index (hydrate (table_host [(snapshot_index7, snapshot_index7_value)])
                                 (Some snapshot_index7) (initial_state (fixed_random 0)))))\<rparr>"
  using hydrate_jsx_index_not_clamped by simp

section \<open>Loading an empty bank\<close>

text \<open>
  C10. When the stored snapshot parses to an object whose \<^verbatim>\<open>questionBank\<close> is the empty
  array, hydration adopts it: the bank becomes empty, the index 0, and the component renders
  the "No questions loaded" card, whatever bank was there before (the shuffled seed bank at
  start-up).
\<close>

theorem hydrate_adopts_empty_bank:
  assumes "raw \<noteq> []" "json_parse h raw = Some saved" "truthy saved" "typeof saved = TObject"
    and "get_prop h saved ''questionBank'' = JArr []"
  shows "questionBank (hydrate h (Some raw) s) = []
         \<and> index (hydrate h (Some raw) s) = 0
         \<and> render (hydrate h (Some raw) s) = NoQuestionsLoaded"
proof -
  let ?r = "hydrate h (Some raw) s"
  have b: "questionBank ?r = []" and i: "index ?r = 0"
    using assms by (simp_all add: hydrate_def safeParseJSON_def Let_def clampIndex_def)
  from b have "current ?r = JUndefined" by (rule current_empty)
  then have "render ?r = NoQuestionsLoaded" by (simp add: render_def)
  with b i show ?thesis by simp
qed

theorem hydrate_adopts_empty_bank_witness:
  "snapshot_empty_bank \<noteq> []
   \<and> json_parse (table_host [(snapshot_empty_bank, snapshot_empty_bank_value)]) snapshot_empty_bank
       = Some snapshot_empty_bank_value
   \<and> truthy snapshot_empty_bank_value \<and> typeof snapshot_empty_bank_value = TObject
   \<and> get_prop (table_host [(snapshot_empty_bank, snapshot_empty_bank_value)])
        snapshot_empty_bank_value ''questionBank'' = JArr []
   \<and> length (questionBank (initial_state (fixed_random 0))) = 2
   \<and> questionBank (hydrate (table_host [(snapshot_empty_bank, snapshot_empty_bank_value)])
        (Some snapshot_empty_bank) (initial_state (fixed_random 0))) = []
   \<and> render (hydrate (table_host [(snapshot_empty_bank, snapshot_empty_bank_value)])
        (Some snapshot_empty_bank) (initial_state (fixed_random 0))) = NoQuestionsLoaded"
proof -
  let ?h = "table_host [(snapshot_empty_bank, snapshot_empty_bank_value)]"
  have h1: "snapshot_empty_bank \<noteq> []" by (simp add: snapshot_empty_bank_def)
  have h2: "json_parse ?h snapshot_empty_bank = Some snapshot_empty_bank_value"
    by (simp add: table_host_def)
  have h3: "truthy snapshot_empty_bank_value" by (simp add: snapshot_empty_bank_value_def)
  have h4: "typeof snapshot_empty_bank_value = TObject" by (simp add: snapshot_empty_bank_value_def)
  have h5: "get_prop ?h snapshot_empty_bank_value ''questionBank'' = JArr []"
    by (simp add: get_prop_def snapshot_empty_bank_value_def)
  have h6: "length (questionBank (initial_state (fixed_random 0))) = 2" by code_simp
  from hydrate_adopts_empty_bank[OF h1 h2 h3 h4 h5, of "initial_state (fixed_random 0)"] h1 h2 h3 h4 h5 h6
  show ?thesis by simp
qed

section \<open>Loading the stats\<close>

text \<open>
  C6, as claimed: the stored stats are adopted only when they are an object that is not an
  array. The guard is \<^verbatim>\<open>saved.stats && typeof saved.stats === "object"\<close>, which an array
  passes: the snapshot \<^verbatim>\<open>{"stats":[]}\<close> replaces the empty stats object by the array.
\<close>

theorem hydrate_adopts_array_stats:
  "json_parse (table_host [(snapshot_array_stats, snapshot_array_stats_value)]) snapshot_array_stats
     = Some snapshot_array_stats_value
   \<and> get_prop (table_host [(snapshot_array_stats, snapshot_array_stats_value)])
        snapshot_array_stats_value ''stats'' = JArr []
   \<and> isArray (JArr [])
   \<and> stats (initial_state (fixed_random 0)) = JObj []
   \<and> stats (hydrate (table_host [(snapshot_array_stats, snapshot_array_stats_value)])
        (Some snapshot_array_stats) (initial_state (fixed_random 0))) = JArr []"
  by code_simp

text \<open>
  C6, amended. When the stored snapshot parses to an object, its \<^verbatim>\<open>stats\<close> field is
  adopted exactly when it is a non-null value of type \<^verbatim>\<open>"object"\<close> (an array included),
  and is ignored otherwise; whichever happens, the bank is adopted exactly when the stored
  \<^verbatim>\<open>questionBank\<close> is an array of valid questions.
\<close>

theorem hydrate_stats_adoption:
  assumes "raw \<noteq> []" "json_parse h raw = Some saved" "truthy saved" "typeof saved = TObject"
  shows "stats (hydrate h (Some raw) s)
           = (if typeof (get_prop h saved ''stats'') = TObject \<and> get_prop h saved ''stats'' \<noteq> JNull
              then get_prop h saved ''stats'' else stats s)
         \<and> questionBank (hydrate h (Some raw) s)
           = (if isArray (get_prop h saved ''questionBank'')
                 \<and> list_all (isValidQuestion h) (elems (get_prop h saved ''questionBank''))
              then elems (get_prop h saved ''questionBank'') else questionBank s)"
  using assms
  by (cases "get_prop h saved ''stats''") (simp_all add: hydrate_def safeParseJSON_def Let_def)

theorem hydrate_stats_adoption_witness:
  "snapshot_bad_stats \<noteq> []
   \<and> json_parse (table_host [(snapshot_bad_stats, snapshot_bad_stats_value)]) snapshot_bad_stats
       = Some snapshot_bad_stats_value
   \<and> truthy snapshot_bad_stats_value \<and> typeof snapshot_bad_stats_value = TObject
   \<and> get_prop (table_host [(snapshot_bad_stats, snapshot_bad_stats_value)])
        snapshot_bad_stats_value ''stats'' = JNum (Fin 5)
   \<and> stats (hydrate (table_host [(snapshot_bad_stats, snapshot_bad_stats_value)])
        (Some snapshot_bad_stats) (initial_state (fixed_random 0))) = JObj []
   \<and> questionBank (hydrate (table_host [(snapshot_bad_stats, snapshot_bad_stats_value)])
        (Some snapshot_bad_stats) (initial_state (fixed_random 0))) = [sample_question 0]"
proof -
  let ?h = "table_host [(snapshot_bad_stats, snapshot_bad_stats_value)]"
  have h1: "snapshot_bad_stats \<noteq> []" by (simp add: snapshot_bad_stats_def)
  have h2: "json_parse ?h snapshot_bad_stats = Some snapshot_bad_stats_value"
    by (simp add: table_host_def)
  have h3: "truthy snapshot_bad_stats_value" by (simp add: snapshot_bad_stats_value_def)
  have h4: "typeof snapshot_bad_stats_value = TObject" by (simp add: snapshot_bad_stats_value_def)
  have e1: "get_prop ?h snapshot_bad_stats_value ''stats'' = JNum (Fin 5)" by code_simp
  have e2: "get_prop ?h snapshot_bad_stats_value ''questionBank'' = JArr [sample_question 0]"
    by code_simp
  have e3: "isValidQuestion ?h (sample_question 0)" by code_simp
  have e4: "stats (initial_state (fixed_random 0)) = JObj []" by (simp add: initial_state_def)
  from hydrate_stats_adoption[OF h1 h2 h3 h4, of "initial_state (fixed_random 0)"] h1 h2 h3 h4
  show ?thesis by (simp add: e1 e2 e3 e4)
qed

section \<open>Checking an answer\<close>

text \<open>
  C1, as claimed: in every state with the answer revealed, \<^verbatim>\<open>handleCheck\<close> is a no-op,
  whatever the button does. \<^verbatim>\<open>handleCheck\<close> returns early only without a current
  question or without a selection; called on the first seed question, answered correctly
  and revealed, it counts the answer a second time and hides the explanation.
\<close>

theorem handleCheck_records_again_when_revealed:
  "showAnswer answered_state
   \<and> handleCheck (table_host []) answered_state
       = Inr (answered_state\<lparr>showExplanation := False,
               stats := JObj [(''Physiology'', JObj [(''total'', JNum (Fin 2)), (''correct'', JNum (Fin 2))])]\<rparr>)
   \<and> handleCheck (table_host []) answered_state \<noteq> Inr answered_state"
  by code_simp

text \<open>
  C1, amended. \<^verbatim>\<open>handleCheck\<close> changes nothing when there is no current question or no
  choice is selected; it does not look at the reveal flag. A second check of a revealed
  answer is excluded at the button, which is disabled when nothing is selected or the answer
  is revealed: clicking Check Answer in a state with the answer revealed changes nothing.
\<close>

theorem check_noop_cases:
  "(\<not> truthy (current s) \<or> selected s = None \<longrightarrow> handleCheck h s = Inr s)
   \<and> (showAnswer s \<longrightarrow> click_check h s = Inr s)"
  by (auto simp: handleCheck_def click_check_def check_disabled_def Let_def split: view.splits)

theorem check_noop_cases_witness:
  "selected idle_state = None \<and> handleCheck (table_host []) idle_state = Inr idle_state
   \<and> showAnswer answered_state \<and> click_check (table_host []) answered_state = Inr answered_state"
proof -
  have a: "selected idle_state = None" by (simp add: idle_state_def)
  have b: "showAnswer answered_state" by (simp add: answered_state_def)
  from check_noop_cases[of idle_state "table_host []"] check_noop_cases[of answered_state "table_host []"] a b
  show ?thesis by simp
qed

section \<open>Importing a file\<close>

text \<open>
  C2, as claimed: a source that cannot be parsed at all is reported with the generic
  read/parse message. \<^verbatim>\<open>safeParseJSON\<close> turns a parse failure into \<^verbatim>\<open>null\<close>, which
  then fails the array test: a text that is not JSON is reported with the structural message.
\<close>

theorem import_parse_failure_is_structural:
  "json_parse (table_host []) import_not_json = None
   \<and> importError (handleImportJSON (table_host []) (fixed_random 0)
                     (Some (Readable import_not_json)) idle_state) = msg_structural
   \<and> msg_structural \<noteq> msg_generic"
  by code_simp

text \<open>
  C2, amended. A failed import changes nothing but the error message, and a successful one
  replaces the bank by the shuffled import, sets the index to 0, clears the selection, the
  reveal and explanation flags and the stats, and leaves no error message. The message is
  the generic one when the file cannot be read; the structural one when the text does not
  parse, when the parsed value is neither an array nor a value whose \<^verbatim>\<open>questions\<close> is an
  array, and when the array is empty; the schema one when some element fails the validator.
  The three messages are non-empty and pairwise different.
\<close>

theorem import_outcomes:
  "handleImportJSON h rnd (Some Unreadable) s = s\<lparr>importError := msg_generic\<rparr>
   \<and> (json_parse h text = None \<longrightarrow>
        handleImportJSON h rnd (Some (Readable text)) s = s\<lparr>importError := msg_structural\<rparr>)
   \<and> (json_parse h text = Some data \<and> \<not> isArray data \<and> \<not> isArray (get_prop h data ''questions'') \<longrightarrow>
        handleImportJSON h rnd (Some (Readable text)) s = s\<lparr>importError := msg_structural\<rparr>)
   \<and> (json_parse h text = Some data
        \<and> qs = (if isArray data then elems data else elems (get_prop h data ''questions''))
        \<and> (isArray data \<or> isArray (get_prop h data ''questions'')) \<longrightarrow>
          (qs = [] \<longrightarrow>
             handleImportJSON h rnd (Some (Readable text)) s = s\<lparr>importError := msg_structural\<rparr>)
        \<and> (qs \<noteq> [] \<and> \<not> list_all (isValidQuestion h) qs \<longrightarrow>
             handleImportJSON h rnd (Some (Readable text)) s = s\<lparr>importError := msg_schema\<rparr>)
        \<and> (qs \<noteq> [] \<and> list_all (isValidQuestion h) qs \<longrightarrow>
             handleImportJSON h rnd (Some (Readable text)) s
               = s\<lparr>questionBank := shuffleArray rnd qs, index := 0, selected := None,
                    showAnswer := False, showExplanation := False, stats := JObj [],
                    importError := []\<rparr>))
   \<and> msg_generic \<noteq> [] \<and> msg_structural \<noteq> [] \<and> msg_schema \<noteq> []
   \<and> msg_generic \<noteq> msg_structural \<and> msg_generic \<noteq> msg_schema \<and> msg_structural \<noteq> msg_schema"
proof -
  have nullish_not_array: "\<And>v. nullish v \<Longrightarrow> \<not> isArray v"
    by (case_tac v) simp_all
  have gp_nullish: "\<And>v k. nullish v \<Longrightarrow> get_prop h v k = JUndefined"
    by (simp add: get_prop_def)
  have p1: "handleImportJSON h rnd (Some Unreadable) s = s\<lparr>importError := msg_generic\<rparr>"
    by (simp add: handleImportJSON_def)
  have p2: "json_parse h text = None \<longrightarrow>
        handleImportJSON h rnd (Some (Readable text)) s = s\<lparr>importError := msg_structural\<rparr>"
    by (simp add: handleImportJSON_def safeParseJSON_def)
  have p3: "json_parse h text = Some data \<and> \<not> isArray data \<and> \<not> isArray (get_prop h data ''questions'') \<longrightarrow>
        handleImportJSON h rnd (Some (Readable text)) s = s\<lparr>importError := msg_structural\<rparr>"
    by (simp add: handleImportJSON_def safeParseJSON_def)
  have p4: "json_parse h text = Some data
        \<and> qs = (if isArray data then elems data else elems (get_prop h data ''questions''))
        \<and> (isArray data \<or> isArray (get_prop h data ''questions'')) \<longrightarrow>
          (qs = [] \<longrightarrow>
             handleImportJSON h rnd (Some (Readable text)) s = s\<lparr>importError := msg_structural\<rparr>)
        \<and> (qs \<noteq> [] \<and> \<not> list_all (isValidQuestion h) qs \<longrightarrow>
             handleImportJSON h rnd (Some (Readable text)) s = s\<lparr>importError := msg_schema\<rparr>)
        \<and> (qs \<noteq> [] \<and> list_all (isValidQuestion h) qs \<longrightarrow>
             handleImportJSON h rnd (Some (Readable text)) s
               = s\<lparr>questionBank := shuffleArray rnd qs, index := 0, selected := None,
                    showAnswer := False, showExplanation := False, stats := JObj [],
                    importError := []\<rparr>)"
    using nullish_not_array[of data] gp_nullish[of data "''questions''"]
    by (cases "nullish data")
       (auto simp: handleImportJSON_def safeParseJSON_def resetPerQuestionUI_def Let_def)
  have p5: "msg_generic \<noteq> [] \<and> msg_structural \<noteq> [] \<and> msg_schema \<noteq> []
   \<and> msg_generic \<noteq> msg_structural \<and> msg_generic \<noteq> msg_schema \<and> msg_structural \<noteq> msg_schema"
    by (simp add: msg_generic_def msg_structural_def msg_schema_def)
  show ?thesis
    by (rule conjI[OF p1 conjI[OF p2 conjI[OF p3 conjI[OF p4 p5]]]])
qed

theorem import_outcomes_witness:
  "json_parse import_host import_not_json = None
   \<and> handleImportJSON import_host (fixed_random 0) (Some (Readable import_not_json)) answered_state
       = answered_state\<lparr>importError := msg_structural\<rparr>
   \<and> json_parse import_host import_number = Some (JNum (Fin 5))
   \<and> handleImportJSON import_host (fixed_random 0) (Some (Readable import_number)) answered_state
       = answered_state\<lparr>importError := msg_structural\<rparr>
   \<and> json_parse import_host import_empty = Some (JArr [])
   \<and> handleImportJSON import_host (fixed_random 0) (Some (Readable import_empty)) answered_state
       = answered_state\<lparr>importError := msg_structural\<rparr>
   \<and> json_parse import_host import_bad_answer = Some (JArr [sample_question 99])
   \<and> \<not> isValidQuestion import_host (sample_question 99)
   \<and> handleImportJSON import_host (fixed_random 0) (Some (Readable import_bad_answer)) answered_state
       = answered_state\<lparr>importError := msg_schema\<rparr>
   \<and> json_parse import_host import_good = Some (JObj [(''questions'', JArr [sample_question 0])])
   \<and> isValidQuestion import_host (sample_question 0)
   \<and> handleImportJSON import_host (fixed_random 0) (Some (Readable import_good)) answered_state
       = answered_state\<lparr>questionBank := [sample_question 0], index := 0, selected := None,
            showAnswer := False, showExplanation := False, stats := JObj [], importError := []\<rparr>"
proof -
  let ?r = "fixed_random 0"
  let ?good = "JObj [(''questions'', JArr [sample_question 0])]"
  have a: "json_parse import_host import_not_json = None" by code_simp
  have b: "json_parse import_host import_number = Some (JNum (Fin 5))" by code_simp
  have b': "\<not> isArray (get_prop import_host (JNum (Fin 5)) ''questions'')" by code_simp
  have c: "json_parse import_host import_empty = Some (JArr [])" by code_simp
  have d: "json_parse import_host import_bad_answer = Some (JArr [sample_question 99])" by code_simp
  have d': "\<not> isValidQuestion import_host (sample_question 99)" by code_simp
  have e: "json_parse import_host import_good = Some ?good" by code_simp
  have e': "get_prop import_host ?good ''questions'' = JArr [sample_question 0]" by code_simp
  have e'': "isValidQuestion import_host (sample_question 0)" by code_simp
  have sh: "shuffleArray ?r [sample_question 0] = [sample_question 0]"
    by (simp add: shuffleArray_def)
  note t = import_outcomes[where h = import_host and rnd = ?r and s = answered_state]
  from t[of import_not_json] a
  have 1: "handleImportJSON import_host ?r (Some (Readable import_not_json)) answered_state
             = answered_state\<lparr>importError := msg_structural\<rparr>" by simp
  from t[of import_number "JNum (Fin 5)"] b b'
  have 2: "handleImportJSON import_host ?r (Some (Readable import_number)) answered_state
             = answered_state\<lparr>importError := msg_structural\<rparr>" by simp
  from t[of import_empty "JArr []" "[]"] c
  have 3: "handleImportJSON import_host ?r (Some (Readable import_empty)) answered_state
             = answered_state\<lparr>importError := msg_structural\<rparr>" by simp
  from t[of import_bad_answer "JArr [sample_question 99]" "[sample_question 99]"] d d'
  have 4: "handleImportJSON import_host ?r (Some (Readable import_bad_answer)) answered_state
             = answered_state\<lparr>importError := msg_schema\<rparr>" by simp
  from t[of import_good ?good "[sample_question 0]"] e e' e'' sh
  have 5: "handleImportJSON import_host ?r (Some (Readable import_good)) answered_state
             = answered_state\<lparr>questionBank := [sample_question 0], index := 0, selected := None,
                  showAnswer := False, showExplanation := False, stats := JObj [],
                  importError := []\<rparr>" by simp
  from a b c d d' e e'' 1 2 3 4 5 show ?thesis by simp
qed

section \<open>The invariant of the statistics under the operations\<close>

lemma set_update_subset: "set (AList.update k v kvs) \<subseteq> insert (k, v) (set kvs)"
  by (induction kvs) auto

lemma set_insert_index: "set (insert_index k v kvs) = insert (k, v) (set kvs)"
  by (induction kvs) auto

lemma distinct_insert_index:
  "k \<notin> fst ` set kvs \<Longrightarrow> distinct (map fst kvs) \<Longrightarrow> distinct (map fst (insert_index k v kvs))"
  by (induction kvs) (auto simp: set_insert_index)

lemma set_obj_set_subset: "set (obj_set k v kvs) \<subseteq> insert (k, v) (set kvs)"
  using set_update_subset[of k v kvs] by (simp add: obj_set_def set_insert_index)

lemma distinct_obj_set:
  "distinct (map fst kvs) \<Longrightarrow> distinct (map fst (obj_set k v kvs))"
  by (simp add: obj_set_def distinct_update distinct_insert_index)

lemma stats_inv_obj_set:
  assumes "stats_inv (JObj kvs)" "topic_stat_ok v"
  shows "stats_inv (JObj (obj_set k v kvs))"
proof -
  from assms(1) have d: "distinct (map fst kvs)" and ok: "\<forall>e \<in> set kvs. topic_stat_ok (snd e)"
    by (auto simp: stats_inv_def list_all_iff)
  have "\<forall>e \<in> set (obj_set k v kvs). topic_stat_ok (snd e)"
    using set_obj_set_subset[of k v kvs] ok assms(2) by auto
  with distinct_obj_set[OF d] show ?thesis
    by (auto simp: stats_inv_def list_all_iff)
qed

lemma finite_fieldD: "finite_field e k = Some x \<Longrightarrow> map_of e k = Some (JNum (Fin x))"
  by (auto split: option.splits jsval.splits jsnum.splits)

lemma topic_stat_okE:
  assumes "topic_stat_ok v"
  obtains e c t where "v = JObj e" "map_of e ''correct'' = Some (JNum (Fin c))"
    "map_of e ''total'' = Some (JNum (Fin t))" "c \<in> \<int>" "t \<in> \<int>" "0 \<le> c" "c \<le> t"
proof -
  from assms obtain e where e: "v = JObj e" by (cases v) simp_all
  from assms e obtain c where c: "finite_field e ''correct'' = Some c"
    by (cases "finite_field e ''correct''") (simp_all del: finite_field.simps)
  from assms e c obtain t where t: "finite_field e ''total'' = Some t"
    by (cases "finite_field e ''total''") (simp_all del: finite_field.simps)
  from assms e c t have "c \<in> \<int>" "t \<in> \<int>" "0 \<le> c" "c \<le> t"
    by (simp_all add: is_int_iff del: finite_field.simps)
  with that[OF e finite_fieldD[OF c] finite_fieldD[OF t]] show thesis by blast
qed

lemma topic_stat_ok_entry:
  assumes "c \<in> \<int>" "t \<in> \<int>" "0 \<le> c" "c \<le> t" "b = 0 \<or> b = 1"
  shows "topic_stat_ok (JObj [(''total'', JNum (Fin (t + 1))), (''correct'', JNum (Fin (c + b)))])"
  using assms by (auto simp: is_int_iff)

text \<open>The entry that the updater of \<^verbatim>\<open>handleCheck\<close> builds from what it found.\<close>

lemma new_entry_ok:
  assumes found: "topic_stat_ok found \<or> \<not> truthy found"
    and b: "b = 0 \<or> b = 1"
  shows "topic_stat_ok
           (let topicStats = (if truthy found then found
                              else JObj [(''correct'', JNum (Fin 0)), (''total'', JNum (Fin 0))])
            in JObj [(''total'', js_plus h (get_prop h topicStats ''total'') (Fin 1)),
                     (''correct'', js_plus h (get_prop h topicStats ''correct'') (Fin b))])"
proof (cases "truthy found")
  case True
  with found have "topic_stat_ok found" by simp
  then obtain e c t where e: "found = JObj e" "map_of e ''correct'' = Some (JNum (Fin c))"
    "map_of e ''total'' = Some (JNum (Fin t))" "c \<in> \<int>" "t \<in> \<int>" "0 \<le> c" "c \<le> t"
    by (rule topic_stat_okE)
  from e(1-3) have "get_prop h found ''total'' = JNum (Fin t)" "get_prop h found ''correct'' = JNum (Fin c)"
    by (simp_all add: get_prop_def)
  with True topic_stat_ok_entry[OF e(4-7) b] show ?thesis by simp
next
  case False
  have "get_prop h (JObj [(''correct'', JNum (Fin 0)), (''total'', JNum (Fin 0))]) ''total'' = JNum (Fin 0)"
       "get_prop h (JObj [(''correct'', JNum (Fin 0)), (''total'', JNum (Fin 0))]) ''correct'' = JNum (Fin 0)"
    by (simp_all add: get_prop_def)
  with False topic_stat_ok_entry[of 0 0 b] b show ?thesis by simp
qed

lemma handleCheck_stats_inv:
  assumes inv: "stats_inv (stats s)"
    and res: "handleCheck h s = Inr s'"
    and proto: "map_of (own_entries (stats s)) (prop_key h (get_prop h (current s) ''topic'')) = None
                \<longrightarrow> \<not> truthy (inherited h (stats s) (prop_key h (get_prop h (current s) ''topic'')))"
  shows "stats_inv (stats s')"
proof (cases "\<not> truthy (current s) \<or> selected s = None")
  case True
  with res have "s' = s" by (simp add: handleCheck_def Let_def)
  with inv show ?thesis by simp
next
  case False
  from inv obtain kvs where kvs: "stats s = JObj kvs"
    by (cases "stats s") (simp_all add: stats_inv_def)
  let ?key = "prop_key h (get_prop h (current s) ''topic'')"
  let ?found = "get_prop h (stats s) ?key"
  have found: "topic_stat_ok ?found \<or> \<not> truthy ?found"
  proof (cases "map_of kvs ?key")
    case None
    with proto kvs show ?thesis by (simp add: get_prop_def)
  next
    case (Some x)
    then have "(?key, x) \<in> set kvs" by (rule map_of_SomeD)
    with inv kvs have "topic_stat_ok x" by (auto simp: stats_inv_def list_all_iff)
    with Some kvs show ?thesis by (simp add: get_prop_def)
  qed
  let ?b = "if JNum (Fin (of_nat (the (selected s)))) = get_prop h (current s) ''answer'' then 1 else 0 :: rat"
  have "?b = 0 \<or> ?b = 1" by simp
  from new_entry_ok[OF found this, of h] inv kvs
  have "stats_inv (JObj (obj_set ?key
          (let topicStats = (if truthy ?found then ?found
                              else JObj [(''correct'', JNum (Fin 0)), (''total'', JNum (Fin 0))])
            in JObj [(''total'', js_plus h (get_prop h topicStats ''total'') (Fin 1)),
                     (''correct'', js_plus h (get_prop h topicStats ''correct'') (Fin ?b))]) kvs))"
    by (simp add: stats_inv_obj_set)
  moreover from False res kvs have "stats s' = JObj (obj_set ?key
          (let topicStats = (if truthy ?found then ?found
                              else JObj [(''correct'', JNum (Fin 0)), (''total'', JNum (Fin 0))])
            in JObj [(''total'', js_plus h (get_prop h topicStats ''total'') (Fin 1)),
                     (''correct'', js_plus h (get_prop h topicStats ''correct'') (Fin ?b))]) kvs)"
    by (auto simp: handleCheck_def Let_def)
  ultimately show ?thesis by simp
qed

lemma stats_after_import:
  "stats (handleImportJSON h rnd f s) = stats s \<or> stats (handleImportJSON h rnd f s) = JObj []"
  by (auto simp: handleImportJSON_def resetPerQuestionUI_def Let_def split: option.splits import_file.splits)

lemma stats_after_hydrate:
  "stats (hydrate h item s) = stats s
   \<or> (\<exists>raw saved. item = Some raw \<and> json_parse h raw = Some saved
        \<and> typeof (get_prop h saved ''stats'') = TObject \<and> get_prop h saved ''stats'' \<noteq> JNull
        \<and> stats (hydrate h item s) = get_prop h saved ''stats'')"
  by (auto simp: hydrate_def safeParseJSON_def Let_def split: option.splits)

lemma stats_inv_empty: "stats_inv (JObj [])"
  by (simp add: stats_inv_def)

text \<open>
  A topic that names a property of \<^verbatim>\<open>Object.prototype\<close> is outside the theorem below:
  \<^verbatim>\<open>prev[q.topic]\<close> then finds the inherited function, and the counts become
  \<^verbatim>\<open>NaN\<close>.
\<close>

lemma handleCheck_inherited_topic:
  "stats_inv (stats toString_state)
   \<and> handleCheck (table_host []) toString_state
       = Inr (toString_state\<lparr>showAnswer := True, showExplanation := False,
               stats := JObj [(''toString'', JObj [(''total'', JNum NaN), (''correct'', JNum NaN)])]\<rparr>)"
  by code_simp

text \<open>
  C4, as claimed: the invariant \<open>correct \<le> total\<close> holds after adoption of a persisted
  snapshot. Hydration adopts any non-null object it finds under \<^verbatim>\<open>stats\<close> without looking
  inside: the snapshot \<^verbatim>\<open>{"stats":{"T":{"correct":5,"total":2}}}\<close> breaks the invariant.
\<close>

theorem hydrate_adopts_inflated_stats:
  "stats_inv (stats (initial_state (fixed_random 0)))
   \<and> stats (hydrate (table_host [(snapshot_inflated_stats, snapshot_inflated_stats_value)])
        (Some snapshot_inflated_stats) (initial_state (fixed_random 0)))
       = JObj [(''T'', JObj [(''correct'', JNum (Fin 5)), (''total'', JNum (Fin 2))])]
   \<and> \<not> stats_inv (stats (hydrate (table_host [(snapshot_inflated_stats, snapshot_inflated_stats_value)])
        (Some snapshot_inflated_stats) (initial_state (fixed_random 0))))"
  by code_simp

text \<open>
  C4, amended. From stats that satisfy the invariant (every entry an object with integer
  \<open>0 \<le> correct \<le> total\<close>), the invariant holds again after an answer check whose topic is
  an entry of the stats or names no truthy inherited property of the stats object, after a
  reset, and after an import, successful or not. At load the stored stats are adopted as they
  are, so the invariant holds after load provided the stored stats, when they are a non-null
  object, satisfy it.
\<close>

theorem stats_invariant_kept:
  assumes inv: "stats_inv (stats s)"
  shows "(\<forall>s'. handleCheck h s = Inr s'
            \<and> (map_of (own_entries (stats s)) (prop_key h (get_prop h (current s) ''topic'')) = None
                 \<longrightarrow> \<not> truthy (inherited h (stats s) (prop_key h (get_prop h (current s) ''topic''))))
            \<longrightarrow> stats_inv (stats s'))
         \<and> stats_inv (stats (handleResetProgress s))
         \<and> stats_inv (stats (handleImportJSON h rnd f s))
         \<and> ((\<forall>raw saved. item = Some raw \<and> json_parse h raw = Some saved
                \<and> typeof (get_prop h saved ''stats'') = TObject \<and> get_prop h saved ''stats'' \<noteq> JNull
                \<longrightarrow> stats_inv (get_prop h saved ''stats''))
             \<longrightarrow> stats_inv (stats (hydrate h item s)))"
proof -
  have p1: "\<forall>s'. handleCheck h s = Inr s'
            \<and> (map_of (own_entries (stats s)) (prop_key h (get_prop h (current s) ''topic'')) = None
                 \<longrightarrow> \<not> truthy (inherited h (stats s) (prop_key h (get_prop h (current s) ''topic''))))
            \<longrightarrow> stats_inv (stats s')"
  proof (intro allI impI, elim conjE)
    fix s'
    assume "handleCheck h s = Inr s'"
      and "map_of (own_entries (stats s)) (prop_key h (get_prop h (current s) ''topic'')) = None
           \<longrightarrow> \<not> truthy (inherited h (stats s) (prop_key h (get_prop h (current s) ''topic'')))"
    then show "stats_inv (stats s')" by (rule handleCheck_stats_inv[OF inv])
  qed
  have p2: "stats_inv (stats (handleResetProgress s))"
    by (simp add: handleResetProgress_def resetPerQuestionUI_def stats_inv_empty)
  have p3: "stats_inv (stats (handleImportJSON h rnd f s))"
    using stats_after_import[of h rnd f s] inv stats_inv_empty by auto
  have p4: "(\<forall>raw saved. item = Some raw \<and> json_parse h raw = Some saved
                \<and> typeof (get_prop h saved ''stats'') = TObject \<and> get_prop h saved ''stats'' \<noteq> JNull
                \<longrightarrow> stats_inv (get_prop h saved ''stats''))
             \<longrightarrow> stats_inv (stats (hydrate h item s))"
    using stats_after_hydrate[of h item s] inv by auto
  show ?thesis
    by (rule conjI[OF p1 conjI[OF p2 conjI[OF p3 p4]]])
qed

theorem stats_invariant_kept_witness:
  "stats_inv (stats chosen_state)
   \<and> handleCheck (table_host [(snapshot_good_stats, snapshot_good_stats_value)]) chosen_state
       = Inr (chosen_state\<lparr>showAnswer := True, showExplanation := False,
               stats := JObj [(''Physiology'', JObj [(''total'', JNum (Fin 1)), (''correct'', JNum (Fin 1))])]\<rparr>)
   \<and> stats_inv (JObj [(''Physiology'', JObj [(''total'', JNum (Fin 1)), (''correct'', JNum (Fin 1))])])
   \<and> stats (hydrate (table_host [(snapshot_good_stats, snapshot_good_stats_value)])
        (Some snapshot_good_stats) chosen_state)
       = JObj [(''T'', JObj [(''correct'', JNum (Fin 1)), (''total'', JNum (Fin 2))])]
   \<and> stats_inv (stats (hydrate (table_host [(snapshot_good_stats, snapshot_good_stats_value)])
        (Some snapshot_good_stats) chosen_state))"
proof -
  let ?h = "table_host [(snapshot_good_stats, snapshot_good_stats_value)]"
  let ?s1 = "chosen_state\<lparr>showAnswer := True, showExplanation := False,
               stats := JObj [(''Physiology'', JObj [(''total'', JNum (Fin 1)), (''correct'', JNum (Fin 1))])]\<rparr>"
  have inv: "stats_inv (stats chosen_state)" by code_simp
  have chk: "handleCheck ?h chosen_state = Inr ?s1" by code_simp
  have key: "prop_key ?h (get_prop ?h (current chosen_state) ''topic'') = ''Physiology''" by code_simp
  have own: "map_of (own_entries (stats chosen_state)) ''Physiology'' = None" by code_simp
  have inh: "\<not> truthy (inherited ?h (stats chosen_state) ''Physiology'')" by code_simp
  have stored: "get_prop ?h snapshot_good_stats_value ''stats''
                  = JObj [(''T'', JObj [(''correct'', JNum (Fin 1)), (''total'', JNum (Fin 2))])]"
    by code_simp
  have stored_inv: "stats_inv (JObj [(''T'', JObj [(''correct'', JNum (Fin 1)), (''total'', JNum (Fin 2))])])"
    by code_simp
  have parse: "\<And>raw saved. Some snapshot_good_stats = Some raw \<and> json_parse ?h raw = Some saved
                 \<Longrightarrow> saved = snapshot_good_stats_value"
    by (auto simp: table_host_def)
  have load: "stats (hydrate ?h (Some snapshot_good_stats) chosen_state)
                = JObj [(''T'', JObj [(''correct'', JNum (Fin 1)), (''total'', JNum (Fin 2))])]"
    by code_simp
  have pre: "map_of (own_entries (stats chosen_state))
               (prop_key ?h (get_prop ?h (current chosen_state) ''topic'')) = None
             \<longrightarrow> \<not> truthy (inherited ?h (stats chosen_state)
                           (prop_key ?h (get_prop ?h (current chosen_state) ''topic'')))"
    using key inh by simp
  have hyp: "\<forall>raw saved. Some snapshot_good_stats = Some raw \<and> json_parse ?h raw = Some saved
               \<and> typeof (get_prop ?h saved ''stats'') = TObject \<and> get_prop ?h saved ''stats'' \<noteq> JNull
               \<longrightarrow> stats_inv (get_prop ?h saved ''stats'')"
    using parse stored stored_inv by metis
  note t = stats_invariant_kept[OF inv, where h = ?h and rnd = "fixed_random 0" and f = None
             and item = "Some snapshot_good_stats"]
  have 1: "stats_inv (stats ?s1)"
    by (rule t[THEN conjunct1, THEN spec, THEN mp, OF conjI[OF chk pre]])
  have 2: "stats_inv (stats (hydrate ?h (Some snapshot_good_stats) chosen_state))"
    by (rule t[THEN conjunct2, THEN conjunct2, THEN conjunct2, THEN mp, OF hyp])
  from inv chk 1 2 load show ?thesis by simp
qed

section \<open>The accuracy panel\<close>











text \<open>
  The double arithmetic shows in the panel: 23 of 40 is 57.5 percent, the double product is
  just below 57.5, and the panel prints 57.
\<close>

lemma accuracy_percent_below_tie:
  "accuracy_percent h (JObj [(''correct'', JNum (Fin 23)), (''total'', JNum (Fin 40))]) = Fin 57
   \<and> (23 :: rat) / 40 * 100 = 115 / 2"
  by code_simp




end
